theory Spec2Isabelle
  imports Complex_Main
begin

section \<open>The JavaScript values the limiter handles\<close>

text \<open>
  The limiter (\<^verbatim>\<open>src/index.js\<close>, and its three-key variant \<^verbatim>\<open>src/unnamed/part_000\<close>) is
  callback-style JavaScript over a redis client.  Three kinds of values reach it from
  outside: the configuration numbers, the clock, and the replies of the client.

  A JavaScript number is a double.  The finite ones are rational numbers; the model keeps the
  exact value and the three non-finite ones apart.  The two zeros are one value here:
  truthiness, \<^verbatim>\<open>!== 0\<close> and the 32-bit coercion do not tell them apart.
\<close>

datatype jsnum = NaN | PosInf | NegInf | Fin real

text \<open>The primitive values: what one entry of an \<^verbatim>\<open>MGET\<close> reply can be.\<close>

datatype prim = JUndefined | JNull | JBool bool | JNum jsnum | JStr string

text \<open>
  The values a callback receives as \<^verbatim>\<open>err\<close> or as the replies of \<^verbatim>\<open>exec\<close>: a
  primitive, an array, or an \<^verbatim>\<open>Error\<close> object (with its message).
\<close>

datatype jsval = JPrim prim | JArr "jsval list" | JErr string

text \<open>\<^verbatim>\<open>if (v)\<close> and \<^verbatim>\<open>!v\<close>: JavaScript's ToBoolean.\<close>

fun truthy_prim :: "prim \<Rightarrow> bool" where
  "truthy_prim JUndefined = False"
| "truthy_prim JNull = False"
| "truthy_prim (JBool b) = b"
| "truthy_prim (JNum NaN) = False"
| "truthy_prim (JNum PosInf) = True"
| "truthy_prim (JNum NegInf) = True"
| "truthy_prim (JNum (Fin r)) = (r \<noteq> 0)"
| "truthy_prim (JStr s) = (s \<noteq> [])"

fun truthy :: "jsval \<Rightarrow> bool" where
  "truthy (JPrim p) = truthy_prim p"
| "truthy (JArr xs) = True"
| "truthy (JErr m) = True"

text \<open>\<^verbatim>\<open>Array.isArray(v)\<close>.\<close>

fun isArray :: "jsval \<Rightarrow> bool" where
  "isArray (JArr xs) = True"
| "isArray v = False"

text \<open>
  \<^verbatim>\<open>v[i]\<close> on a value that is neither \<^verbatim>\<open>null\<close> nor \<^verbatim>\<open>undefined\<close>: an array gives
  its element, a string its one-character string, and everything else (also any index out
  of range) gives \<^verbatim>\<open>undefined\<close>.  The source indexes a value only after it has been
  found truthy or an array, so the \<^verbatim>\<open>TypeError\<close> of a nullish receiver is never reached.
\<close>

fun idx :: "jsval \<Rightarrow> nat \<Rightarrow> jsval" where
  "idx (JArr xs) i = (if i < length xs then xs ! i else JPrim JUndefined)"
| "idx (JPrim (JStr s)) i = (if i < length s then JPrim (JStr [s ! i]) else JPrim JUndefined)"
| "idx v i = JPrim JUndefined"

text \<open>\<^verbatim>\<open>res[i]\<close> on the array of an \<^verbatim>\<open>MGET\<close> reply.\<close>

definition item :: "prim list \<Rightarrow> nat \<Rightarrow> prim" where
  "item res i = (if i < length res then res ! i else JUndefined)"

text \<open>
  ToNumber on a primitive.  What a string denotes is the engine's StringToNumber, which
  rounds the literal to a double; it is a parameter of the model (\<open>s2n\<close>), so that
  nothing here depends on how a particular string is read.
\<close>

fun toNumber :: "(string \<Rightarrow> jsnum) \<Rightarrow> prim \<Rightarrow> jsnum" where
  "toNumber s2n JUndefined = NaN"
| "toNumber s2n JNull = Fin 0"
| "toNumber s2n (JBool b) = Fin (if b then 1 else 0)"
| "toNumber s2n (JNum x) = x"
| "toNumber s2n (JStr s) = s2n s"

text \<open>Truncation towards zero of a finite number.\<close>

definition trunc :: "real \<Rightarrow> int" where
  "trunc r = (if 0 \<le> r then \<lfloor>r\<rfloor> else \<lceil>r\<rceil>)"

text \<open>The signed 32-bit integer congruent to \<open>i\<close> modulo \<open>2^32\<close>.\<close>

definition wrap32 :: "int \<Rightarrow> int" where
  "wrap32 i = (i + 2147483648) mod 4294967296 - 2147483648"

text \<open>
  ToInt32, the coercion behind \<^verbatim>\<open>x | 0\<close> and \<^verbatim>\<open>~~x\<close>: a non-finite number is 0, a
  finite one is truncated and wrapped.
\<close>

fun toInt32 :: "jsnum \<Rightarrow> int" where
  "toInt32 (Fin r) = wrap32 (trunc r)"
| "toInt32 x = 0"

text \<open>\<^verbatim>\<open>~~v\<close>: two bitwise NOTs cancel, the coercion stays.\<close>

definition not_not :: "(string \<Rightarrow> jsnum) \<Rightarrow> prim \<Rightarrow> int" where
  "not_not s2n v = toInt32 (toNumber s2n v)"

section \<open>The redis client and the clock\<close>

text \<open>
  The commands the limiter sends.  A \<^verbatim>\<open>SET\<close> is always sent as
  \<^verbatim>\<open>[key, value, 'PX', ttl, 'NX' | 'XX']\<close>; a transaction
  \<^verbatim>\<open>db.multi()....exec(cb)\<close> is one \<open>EXEC\<close> with its queued commands.
  The configuration numbers and the clock are integers (the spec's positive integers and
  epoch milliseconds).  The source computes on doubles, the model on integers and exact
  reals: the two are the same as long as the integers involved stay below \<open>2^53\<close> in
  absolute value, and beyond that the model is not the code.  The lemma that gives the
  reset of \<^verbatim>\<open>create\<close> as the whole seconds of \<open>now + duration\<close> bounds that sum by
  \<open>2^31 * 1000\<close>, and the concrete runs stay far below \<open>2^53\<close>.
\<close>

type_synonym key = string

datatype cond = NX | XX

datatype op = SET key int int cond | PEXPIRE key int

datatype cmd = WATCH "key list" | MGET "key list" | EXEC "op list"

text \<open>
  The environment of a call, over a world \<open>'s\<close> that holds the store, the other clients
  acting on it and the time: each call of the client answers its callback's arguments
  and moves the world on.  \<open>db_watch\<close> answers \<^verbatim>\<open>err\<close>, \<open>db_mget\<close> and \<open>db_exec\<close>
  answer \<^verbatim>\<open>(err, res)\<close>, \<open>Date_now\<close> the epoch milliseconds.
\<close>

record 's env =
  db_watch :: "key list \<Rightarrow> 's \<Rightarrow> jsval \<times> 's"
  db_mget :: "key list \<Rightarrow> 's \<Rightarrow> (jsval \<times> prim list) \<times> 's"
  db_exec :: "op list \<Rightarrow> 's \<Rightarrow> (jsval \<times> jsval) \<times> 's"
  Date_now :: "'s \<Rightarrow> int \<times> 's"
  StringToNumber :: "string \<Rightarrow> jsnum"

text \<open>A run threads the world and records every command sent to the client, in order.\<close>

record 's run =
  world :: 's
  sent :: "cmd list"

definition watch :: "'s env \<Rightarrow> key list \<Rightarrow> 's run \<Rightarrow> jsval \<times> 's run" where
  "watch env keys st =
     (let (err, w) = db_watch env keys (world st)
      in (err, \<lparr>world = w, sent = sent st @ [WATCH keys]\<rparr>))"

definition mget_keys :: "'s env \<Rightarrow> key list \<Rightarrow> 's run \<Rightarrow> (jsval \<times> prim list) \<times> 's run" where
  "mget_keys env keys st =
     (let (r, w) = db_mget env keys (world st)
      in (r, \<lparr>world = w, sent = sent st @ [MGET keys]\<rparr>))"

definition multi_exec :: "'s env \<Rightarrow> op list \<Rightarrow> 's run \<Rightarrow> (jsval \<times> jsval) \<times> 's run" where
  "multi_exec env ops st =
     (let (r, w) = db_exec env ops (world st)
      in (r, \<lparr>world = w, sent = sent st @ [EXEC ops]\<rparr>))"

definition now :: "'s env \<Rightarrow> 's run \<Rightarrow> int \<times> 's run" where
  "now env st = (let (t, w) = Date_now env (world st) in (t, st\<lparr>world := w\<rparr>))"

section \<open>The limiter of src/index.js\<close>

text \<open>
  \<^verbatim>\<open>isFirstReplyNull(replies)\<close>: no replies at all, or a falsy first reply, read as
  \<^verbatim>\<open>replies[0][1]\<close> when the first reply is an array (ioredis) and as
  \<^verbatim>\<open>replies[0]\<close> otherwise (node_redis).
\<close>

definition isFirstReplyNull :: "jsval \<Rightarrow> bool" where
  "isFirstReplyNull replies =
     (if \<not> truthy replies then True
      else if isArray (idx replies 0) then \<not> truthy (idx (idx replies 0) 1)
      else \<not> truthy (idx replies 0))"

text \<open>The array \<^verbatim>\<open>[count, reset, max, duration, decrBy]\<close> that \<^verbatim>\<open>get\<close> passes on.\<close>

record opts =
  opt_count :: key
  opt_reset :: key
  opt_max :: int
  opt_duration :: int
  opt_decrBy :: int

text \<open>The object handed to the caller's callback.\<close>

record info =
  total :: int
  remaining :: int
  reset :: int

text \<open>
  What a call ends with: \<^verbatim>\<open>cb(err)\<close> is \<open>Inl err\<close>, \<^verbatim>\<open>cb(null, info)\<close> is
  \<open>Inr info\<close>, together with the run so far.  \<open>None\<close> is a call that is still retrying
  when its rounds are used up: the source has no bound on the retries, the model counts
  the rounds of \<^verbatim>\<open>mget\<close> it may start.
\<close>

type_synonym 's outcome = "((jsval + info) \<times> 's run) option"

text \<open>The closure \<^verbatim>\<open>done\<close> of \<^verbatim>\<open>decr\<close>, at the value \<open>n\<close> has when it runs.\<close>

definition done_cb :: "opts \<Rightarrow> int \<Rightarrow> int \<Rightarrow> info" where
  "done_cb opts n ex = \<lparr>total = opt_max opts, remaining = max n 0, reset = ex\<rparr>"

text \<open>
  The three functions of the source, which call each other: \<^verbatim>\<open>mget\<close> is the probe
  (watch, then read both keys), \<^verbatim>\<open>create\<close> and \<^verbatim>\<open>decr\<close> are its two branches, and
  each of them calls \<^verbatim>\<open>mget\<close> again when its transaction had no effect.  The first
  argument \<open>k\<close> is the number of rounds of \<^verbatim>\<open>mget\<close> that may still start.
  \<^verbatim>\<open>decr\<close> reads the clock before it tests \<open>n\<close>, as the source does.
\<close>

fun create :: "nat \<Rightarrow> 's env \<Rightarrow> opts \<Rightarrow> 's run \<Rightarrow> 's outcome"
  and decr :: "nat \<Rightarrow> 's env \<Rightarrow> opts \<Rightarrow> prim list \<Rightarrow> 's run \<Rightarrow> 's outcome"
  and mget :: "nat \<Rightarrow> 's env \<Rightarrow> opts \<Rightarrow> 's run \<Rightarrow> 's outcome"
where
  "create k env opts st =
     (case now env st of (t, st1) \<Rightarrow>
        let ex = toInt32 (Fin (of_int (t + opt_duration opts) / 1000));
            adjustedMax = max (opt_max opts - (opt_decrBy opts - 1)) 0
        in (case multi_exec env
                   [SET (opt_count opts) adjustedMax (opt_duration opts) NX,
                    SET (opt_reset opts) ex (opt_duration opts) NX] st1 of
              ((err, res), st2) \<Rightarrow>
                if truthy err then Some (Inl err, st2)
                else if isFirstReplyNull res then mget k env opts st2
                else Some (Inr \<lparr>total = opt_max opts, remaining = adjustedMax, reset = ex\<rparr>, st2)))"
| "decr k env opts res st =
     (let n = not_not (StringToNumber env) (item res 0);
          ex = not_not (StringToNumber env) (item res 1)
      in (case now env st of (dateNow, st1) \<Rightarrow>
            if n \<le> 0 then Some (Inr (done_cb opts n ex), st1)
            else
              let n' = n - opt_decrBy opts
              in (case multi_exec env
                         [SET (opt_count opts) n' (ex * 1000 - dateNow) XX,
                          PEXPIRE (opt_reset opts) (ex * 1000 - dateNow)] st1 of
                    ((err, res'), st2) \<Rightarrow>
                      if truthy err then Some (Inl err, st2)
                      else if isFirstReplyNull res' then mget k env opts st2
                      else Some (Inr (done_cb opts n' ex), st2))))"
| "mget 0 env opts st = None"
| "mget (Suc k) env opts st =
     (case watch env [opt_count opts] st of (err, st1) \<Rightarrow>
        if truthy err then Some (Inl err, st1)
        else (case mget_keys env [opt_count opts, opt_reset opts] st1 of
                ((err', res), st2) \<Rightarrow>
                  if truthy err' then Some (Inl err', st2)
                  else if \<not> truthy_prim (item res 0) \<and> item res 0 \<noteq> JNum (Fin 0)
                  then create k env opts st2
                  else decr k env opts res st2))"

text \<open>
  The constructor: \<^verbatim>\<open>assert(this.id)\<close>, \<^verbatim>\<open>assert(this.db)\<close>, then the defaults
  \<^verbatim>\<open>opts.max || 2500\<close> and \<^verbatim>\<open>opts.duration || 3600000\<close> and the key prefix.
  An option left out is \<open>None\<close>; \<open>arg_db\<close> says whether a client was given.
\<close>

record args =
  arg_id :: string
  arg_db :: bool
  arg_max :: "int option"
  arg_duration :: "int option"

record limiter =
  lim_id :: string
  lim_max :: int
  lim_duration :: int
  lim_prefix :: string

datatype error = AssertionError string

definition or_default :: "int option \<Rightarrow> int \<Rightarrow> int" where
  "or_default v d = (case v of None \<Rightarrow> d | Some x \<Rightarrow> if x = 0 then d else x)"

definition Limiter :: "args \<Rightarrow> error + limiter" where
  "Limiter a =
     (if arg_id a = [] then Inl (AssertionError ''.id required'')
      else if \<not> arg_db a then Inl (AssertionError ''.db required'')
      else Inr \<lparr>lim_id = arg_id a,
                lim_max = or_default (arg_max a) 2500,
                lim_duration = or_default (arg_duration a) 3600000,
                lim_prefix = ''limit:'' @ arg_id a @ '':''\<rparr>)"

text \<open>
  \<^verbatim>\<open>Limiter.prototype.get(decrBy, fn)\<close>; \<^verbatim>\<open>get(fn)\<close> is \<open>decrBy = None\<close> and
  counts one unit.
\<close>

definition get_opts :: "limiter \<Rightarrow> int option \<Rightarrow> opts" where
  "get_opts this decrBy =
     \<lparr>opt_count = lim_prefix this @ ''count'',
      opt_reset = lim_prefix this @ ''reset'',
      opt_max = lim_max this,
      opt_duration = lim_duration this,
      opt_decrBy = (case decrBy of None \<Rightarrow> 1 | Some d \<Rightarrow> d)\<rparr>"

definition get :: "nat \<Rightarrow> 's env \<Rightarrow> limiter \<Rightarrow> int option \<Rightarrow> 's run \<Rightarrow> 's outcome" where
  "get k env this decrBy st = mget k env (get_opts this decrBy) st"

section \<open>The limiter of src/unnamed/part_000\<close>

text \<open>
  The second source file is the same module with three keys: it also stores the maximum,
  under \<^verbatim>\<open>limit:<id>:limit\<close>, reads it back in \<^verbatim>\<open>decr\<close>, and has no
  \<^verbatim>\<open>decrBy\<close>: every call counts one unit.  Its constructor and
  \<^verbatim>\<open>isFirstReplyNull\<close> are those of \<^verbatim>\<open>src/index.js\<close>.  Its functions carry
  the suffix \<open>_p0\<close> here.
\<close>

text \<open>The array \<^verbatim>\<open>[count, limit, reset, max, duration]\<close>.\<close>

record opts_p0 =
  p0_count :: key
  p0_limit :: key
  p0_reset :: key
  p0_max :: int
  p0_duration :: int

text \<open>Its closure \<^verbatim>\<open>done\<close>: \<^verbatim>\<open>max\<close> is the value read from the store.\<close>

definition done_cb_p0 :: "int \<Rightarrow> int \<Rightarrow> int \<Rightarrow> info" where
  "done_cb_p0 mx n ex = \<lparr>total = mx, remaining = (if n < 0 then 0 else n), reset = ex\<rparr>"

fun create_p0 :: "nat \<Rightarrow> 's env \<Rightarrow> opts_p0 \<Rightarrow> 's run \<Rightarrow> 's outcome"
  and decr_p0 :: "nat \<Rightarrow> 's env \<Rightarrow> opts_p0 \<Rightarrow> prim list \<Rightarrow> 's run \<Rightarrow> 's outcome"
  and mget_p0 :: "nat \<Rightarrow> 's env \<Rightarrow> opts_p0 \<Rightarrow> 's run \<Rightarrow> 's outcome"
where
  "create_p0 k env opts st =
     (case now env st of (t, st1) \<Rightarrow>
        let ex = toInt32 (Fin (of_int (t + p0_duration opts) / 1000))
        in (case multi_exec env
                   [SET (p0_count opts) (p0_max opts) (p0_duration opts) NX,
                    SET (p0_limit opts) (p0_max opts) (p0_duration opts) NX,
                    SET (p0_reset opts) ex (p0_duration opts) NX] st1 of
              ((err, res), st2) \<Rightarrow>
                if truthy err then Some (Inl err, st2)
                else if isFirstReplyNull res then mget_p0 k env opts st2
                else Some (Inr \<lparr>total = p0_max opts, remaining = p0_max opts, reset = ex\<rparr>,
                           st2)))"
| "decr_p0 k env opts res st =
     (let n = not_not (StringToNumber env) (item res 0);
          mx = not_not (StringToNumber env) (item res 1);
          ex = not_not (StringToNumber env) (item res 2)
      in (case now env st of (dateNow, st1) \<Rightarrow>
            if n \<le> 0 then Some (Inr (done_cb_p0 mx n ex), st1)
            else
              (case multi_exec env
                      [SET (p0_count opts) (n - 1) (ex * 1000 - dateNow) XX,
                       PEXPIRE (p0_limit opts) (ex * 1000 - dateNow),
                       PEXPIRE (p0_reset opts) (ex * 1000 - dateNow)] st1 of
                 ((err, res'), st2) \<Rightarrow>
                   if truthy err then Some (Inl err, st2)
                   else if isFirstReplyNull res' then mget_p0 k env opts st2
                   else Some (Inr (done_cb_p0 mx (n - 1) ex), st2))))"
| "mget_p0 0 env opts st = None"
| "mget_p0 (Suc k) env opts st =
     (case watch env [p0_count opts] st of (err, st1) \<Rightarrow>
        if truthy err then Some (Inl err, st1)
        else (case mget_keys env [p0_count opts, p0_limit opts, p0_reset opts] st1 of
                ((err', res), st2) \<Rightarrow>
                  if truthy err' then Some (Inl err', st2)
                  else if \<not> truthy_prim (item res 0) \<and> item res 0 \<noteq> JNum (Fin 0)
                  then create_p0 k env opts st2
                  else decr_p0 k env opts res st2))"

definition get_opts_p0 :: "limiter \<Rightarrow> opts_p0" where
  "get_opts_p0 this =
     \<lparr>p0_count = lim_prefix this @ ''count'',
      p0_limit = lim_prefix this @ ''limit'',
      p0_reset = lim_prefix this @ ''reset'',
      p0_max = lim_max this,
      p0_duration = lim_duration this\<rparr>"

definition get_p0 :: "nat \<Rightarrow> 's env \<Rightarrow> limiter \<Rightarrow> 's run \<Rightarrow> 's outcome" where
  "get_p0 k env this st = mget_p0 k env (get_opts_p0 this) st"

section \<open>A scripted world, for concrete runs\<close>

text \<open>
  The world as a script: the answers the client and the clock will give, in the order
  they are asked for.  A call takes the next answer of its kind whatever it is asked; a
  client with no answer left reports an error, a clock with no reading left reads 0.
\<close>

record script =
  watch_replies :: "jsval list"
  mget_replies :: "(jsval \<times> prim list) list"
  exec_replies :: "(jsval \<times> jsval) list"
  clock :: "int list"

definition script_watch :: "key list \<Rightarrow> script \<Rightarrow> jsval \<times> script" where
  "script_watch keys w =
     (case watch_replies w of
        [] \<Rightarrow> (JErr ''no reply'', w)
      | r # rs \<Rightarrow> (r, w\<lparr>watch_replies := rs\<rparr>))"

definition script_mget :: "key list \<Rightarrow> script \<Rightarrow> (jsval \<times> prim list) \<times> script" where
  "script_mget keys w =
     (case mget_replies w of
        [] \<Rightarrow> ((JErr ''no reply'', []), w)
      | r # rs \<Rightarrow> (r, w\<lparr>mget_replies := rs\<rparr>))"

definition script_exec :: "op list \<Rightarrow> script \<Rightarrow> (jsval \<times> jsval) \<times> script" where
  "script_exec ops w =
     (case exec_replies w of
        [] \<Rightarrow> ((JErr ''no reply'', JPrim JUndefined), w)
      | r # rs \<Rightarrow> (r, w\<lparr>exec_replies := rs\<rparr>))"

definition script_now :: "script \<Rightarrow> int \<times> script" where
  "script_now w = (case clock w of [] \<Rightarrow> (0, w) | t # ts \<Rightarrow> (t, w\<lparr>clock := ts\<rparr>))"

text \<open>
  A reading of strings for the concrete runs only.  It is not the engine's StringToNumber:
  it reads an optional minus sign and decimal digits, the way the client writes the
  integers the limiter stores, and the empty string as 0; on these, below \<open>2^53\<close>, it
  agrees with JavaScript.  Every other string it reads as \<open>NaN\<close>, which JavaScript
  does not (\<^verbatim>\<open>"3.5"\<close>, \<^verbatim>\<open>"1e3"\<close>, \<^verbatim>\<open>" 4"\<close>).  The concrete runs use digit strings
  only, and no statement over all environments or all scripts depends on it.
\<close>

fun digits :: "string \<Rightarrow> nat \<Rightarrow> nat option" where
  "digits [] acc = Some acc"
| "digits (c # cs) acc =
     (if 48 \<le> (of_char c :: nat) \<and> (of_char c :: nat) \<le> 57
      then digits cs (10 * acc + (of_char c - 48)) else None)"

definition decimal :: "string \<Rightarrow> jsnum" where
  "decimal s =
     (if s = [] then Fin 0
      else if hd s = CHR ''-'' \<and> tl s \<noteq> []
      then (case digits (tl s) 0 of None \<Rightarrow> NaN | Some n \<Rightarrow> Fin (- of_nat n))
      else (case digits s 0 of None \<Rightarrow> NaN | Some n \<Rightarrow> Fin (of_nat n)))"

definition scripted :: "script env" where
  "scripted =
     \<lparr>db_watch = script_watch, db_mget = script_mget, db_exec = script_exec,
      Date_now = script_now, StringToNumber = decimal\<rparr>"


definition start :: "script \<Rightarrow> script run" where
  "start w = \<lparr>world = w, sent = []\<rparr>"

text \<open>A limiter for the concrete runs: five units a minute for the identifier \<open>a\<close>.\<close>

definition lim5 :: limiter where
  "lim5 = \<lparr>lim_id = ''a'', lim_max = 5, lim_duration = 60000, lim_prefix = ''limit:a:''\<rparr>"

section \<open>Predicates of the properties\<close>

text \<open>
  A command that keeps the two expirations together: a creation sets both keys with the
  configured duration, a decrement sets the count and refreshes the reset with one and the
  same time to live.  Every other shape of transaction is not aligned; reads are.
\<close>

fun aligned :: "opts \<Rightarrow> cmd \<Rightarrow> bool" where
  "aligned opts (EXEC [SET c v ttl NX, SET r ex ttl' NX]) =
     (c = opt_count opts \<and> r = opt_reset opts \<and>
      ttl = opt_duration opts \<and> ttl' = opt_duration opts)"
| "aligned opts (EXEC [SET c v ttl XX, PEXPIRE r ttl']) =
     (c = opt_count opts \<and> r = opt_reset opts \<and> ttl' = ttl)"
| "aligned opts (EXEC ops) = False"
| "aligned opts c = True"

text \<open>The run \<open>st'\<close> continues \<open>st\<close> with aligned commands only.\<close>

definition extends :: "opts \<Rightarrow> 's run \<Rightarrow> 's run \<Rightarrow> bool" where
  "extends opts st st' = (\<exists>new. sent st' = sent st @ new \<and> list_all (aligned opts) new)"









section \<open>What the wrappers record, and the 32-bit coercion\<close>

lemmas script_defs = scripted_def start_def watch_def mget_keys_def multi_exec_def now_def
  script_watch_def script_mget_def script_exec_def script_now_def


lemma sent_watch: "watch env keys st = (e, st1) \<Longrightarrow> sent st1 = sent st @ [WATCH keys]"
  by (auto simp: watch_def split: prod.splits)

lemma sent_mget_keys: "mget_keys env keys st = (r, st1) \<Longrightarrow> sent st1 = sent st @ [MGET keys]"
  by (auto simp: mget_keys_def split: prod.splits)

lemma sent_multi_exec: "multi_exec env ops st = (r, st1) \<Longrightarrow> sent st1 = sent st @ [EXEC ops]"
  by (auto simp: multi_exec_def split: prod.splits)

lemma sent_now: "now env st = (t, st1) \<Longrightarrow> sent st1 = sent st"
  by (auto simp: now_def split: prod.splits)

lemma trunc_of_int_div:
  assumes "0 \<le> x"
  shows "trunc (of_int x / 1000) = x div 1000"
proof -
  have "(0::real) \<le> of_int x / 1000" using assms by simp
  then have "trunc (of_int x / 1000) = \<lfloor>real_of_int x / real_of_int 1000\<rfloor>"
    by (simp add: trunc_def)
  also have "\<dots> = x div 1000" by (rule floor_divide_of_int_eq)
  finally show ?thesis .
qed

lemma trunc_towards_zero:
  "\<bar>of_int (trunc r)\<bar> \<le> \<bar>r\<bar> \<and> \<bar>r - of_int (trunc r)\<bar> < 1"
proof (cases "0 \<le> r")
  case True
  then have eq: "trunc r = \<lfloor>r\<rfloor>" by (simp add: trunc_def)
  have "real_of_int \<lfloor>r\<rfloor> \<le> r" "r < real_of_int \<lfloor>r\<rfloor> + 1"
    by linarith+
  moreover have "0 \<le> real_of_int \<lfloor>r\<rfloor>" using True by simp
  ultimately show ?thesis unfolding eq using True by linarith
next
  case False
  then have eq: "trunc r = \<lceil>r\<rceil>" by (simp add: trunc_def)
  have "r \<le> real_of_int \<lceil>r\<rceil>" "real_of_int \<lceil>r\<rceil> < r + 1"
    by linarith+
  moreover have "real_of_int \<lceil>r\<rceil> \<le> 0" using False by (simp add: ceiling_le_iff)
  ultimately show ?thesis unfolding eq using False by linarith
qed

lemma wrap32_id: "0 \<le> i \<Longrightarrow> i < 2147483648 \<Longrightarrow> wrap32 i = i"
  by (simp add: wrap32_def)

lemma wrap32_signed_id: "- 2147483648 \<le> i \<Longrightarrow> i < 2147483648 \<Longrightarrow> wrap32 i = i"
  by (simp add: wrap32_def)

lemma trunc_of_int: "trunc (of_int c) = c"
  by (simp add: trunc_def)

lemma wrap32_range: "- 2147483648 \<le> wrap32 i \<and> wrap32 i < 2147483648"
  by (simp add: wrap32_def)

lemma wrap32_cong: "wrap32 i mod 4294967296 = i mod 4294967296"
  unfolding wrap32_def by (simp add: mod_diff_left_eq)

lemma epoch_in_range:
  assumes "0 \<le> x" "x < 2147483648000"
  shows "toInt32 (Fin (of_int x / 1000)) = x div 1000"
proof -
  have "0 \<le> x div 1000" "x div 1000 < 2147483648" using assms by auto
  then show ?thesis using assms by (simp add: trunc_of_int_div wrap32_id)
qed

lemma falsy_not_zero:
  "(\<not> truthy_prim p \<and> p \<noteq> JNum (Fin 0))
     = (p \<in> {JUndefined, JNull, JBool False, JNum NaN, JStr []})"
proof (cases p)
  case (JNum x)
  then show ?thesis by (cases x) auto
qed auto

text \<open>The coercion on a few values, and the constructor on the arguments of \<open>lim5\<close>.\<close>

lemma not_not_examples:
  "not_not s2n (JNum (Fin (37 / 10))) = 3"
  "not_not s2n (JNum (Fin (- 37 / 10))) = - 3"
  "not_not s2n (JNum (Fin 2147483648)) = - 2147483648"
  "not_not s2n (JNum PosInf) = 0"
  "not_not s2n JUndefined = 0"
  "not_not s2n (JBool True) = 1"
  "not_not decimal (JStr ''1700000060'') = 1700000060"
  "not_not decimal (JStr ''-12'') = - 12"
  "not_not decimal (JStr ''abc'') = 0"
  by (simp_all add: not_not_def trunc_def wrap32_def decimal_def)

lemma isFirstReplyNull_examples:
  "isFirstReplyNull (JArr [])"
  "isFirstReplyNull (JArr [JPrim JNull, JPrim JNull])"
  "isFirstReplyNull (JArr [JArr [JPrim JNull, JPrim JNull], JArr [JPrim JNull, JPrim JNull]])"
  "\<not> isFirstReplyNull (JArr [JPrim (JStr ''OK''), JPrim (JStr ''OK'')])"
  "\<not> isFirstReplyNull (JArr [JArr [JPrim JNull, JPrim (JStr ''OK'')],
                               JArr [JPrim JNull, JPrim (JNum (Fin 1))]])"
  by (simp_all add: isFirstReplyNull_def)

lemma Limiter_lim5:
  "Limiter \<lparr>arg_id = ''a'', arg_db = True, arg_max = Some 5, arg_duration = Some 60000\<rparr>
     = Inr lim5"
  "Limiter \<lparr>arg_id = ''a'', arg_db = True, arg_max = None, arg_duration = None\<rparr>
     = Inr \<lparr>lim_id = ''a'', lim_max = 2500, lim_duration = 3600000,
              lim_prefix = ''limit:a:''\<rparr>"
  "Limiter \<lparr>arg_id = [], arg_db = True, arg_max = None, arg_duration = None\<rparr>
     = Inl (AssertionError ''.id required'')"
  by (simp_all add: Limiter_def or_default_def lim5_def)

section \<open>Creating a window\<close>

text \<open>
  Inside the 32-bit range the creation is as specified.  A call \<^verbatim>\<open>get(decrBy)\<close> whose
  watch and read succeed, whose read finds no count (\<^verbatim>\<open>null\<close>), and whose creation
  transaction commits, has sent exactly the watch, the read and one transaction that sets
  the count to \<open>max 0 (maximum - (decrBy - 1))\<close> and the reset to
  \<open>floor ((now + duration) / 1000)\<close>, both only-if-absent with the duration as time to
  live, and it answers the maximum, that count and that reset; provided
  \<open>0 \<le> now + duration < 2^31 * 1000\<close>.
\<close>

lemma fresh_window_in_range:
  assumes o: "opts = get_opts this d"
    and w: "watch env [opt_count opts] st = (e0, st1)" and e0: "\<not> truthy e0"
    and m: "mget_keys env [opt_count opts, opt_reset opts] st1 = ((e1, res), st2)"
    and e1: "\<not> truthy e1"
    and absent: "item res 0 = JNull"
    and t: "now env st2 = (t, st3)"
    and range: "0 \<le> t + lim_duration this" "t + lim_duration this < 2147483648000"
    and adj: "adj = max 0 (lim_max this - (opt_decrBy opts - 1))"
    and x: "multi_exec env
              [SET (opt_count opts) adj (lim_duration this) NX,
               SET (opt_reset opts) ((t + lim_duration this) div 1000) (lim_duration this) NX]
              st3 = ((e2, rep), st4)"
    and e2: "\<not> truthy e2" and commit: "\<not> isFirstReplyNull rep"
  shows "get (Suc k) env this d st
           = Some (Inr \<lparr>total = lim_max this, remaining = adj,
                         reset = (t + lim_duration this) div 1000\<rparr>, st4)
       \<and> sent st4 = sent st @ [WATCH [opt_count opts], MGET [opt_count opts, opt_reset opts],
                               EXEC [SET (opt_count opts) adj (lim_duration this) NX,
                                     SET (opt_reset opts) ((t + lim_duration this) div 1000)
                                       (lim_duration this) NX]]"
proof -
  have od: "opt_duration opts = lim_duration this" and om: "opt_max opts = lim_max this"
    using o by (simp_all add: get_opts_def)
  have ex: "(t + lim_duration this) div 1000
              = toInt32 (Fin (of_int (t + lim_duration this) / 1000))"
    using epoch_in_range [OF range] by simp
  have adj': "max (opt_max opts - (opt_decrBy opts - 1)) 0 = adj"
    using adj om by (simp add: max.commute)
  have c: "create k env opts st2
             = Some (Inr \<lparr>total = lim_max this, remaining = adj,
                           reset = (t + lim_duration this) div 1000\<rparr>, st4)"
    unfolding ex using t x [unfolded ex] e2 commit adj' od om by (simp add: Let_def)
  have "mget (Suc k) env opts st = create k env opts st2"
    using w e0 m e1 absent by simp
  then have 1: "get (Suc k) env this d st
                  = Some (Inr \<lparr>total = lim_max this, remaining = adj,
                                reset = (t + lim_duration this) div 1000\<rparr>, st4)"
    using c o by (simp add: get_def)
  have 2: "sent st4 = sent st @ [WATCH [opt_count opts], MGET [opt_count opts, opt_reset opts],
                               EXEC [SET (opt_count opts) adj (lim_duration this) NX,
                                     SET (opt_reset opts) ((t + lim_duration this) div 1000)
                                       (lim_duration this) NX]]"
    using sent_watch [OF w] sent_mget_keys [OF m] sent_now [OF t] sent_multi_exec [OF x]
    by simp
  show ?thesis using 1 2 by blast
qed

text \<open>
  A first call \<^verbatim>\<open>get(2)\<close> on \<open>lim5\<close> at 1700000000123 ms: four units remain, the
  window ends at second 1700000060.
\<close>

lemma fresh_window_example:
  "get (Suc 0) scripted lim5 (Some 2)
     (start \<lparr>watch_replies = [JPrim JNull], mget_replies = [(JPrim JNull, [JNull, JNull])],
             exec_replies = [(JPrim JNull, JArr [JPrim (JStr ''OK''), JPrim (JStr ''OK'')])],
             clock = [1700000000123]\<rparr>)
   = Some (Inr \<lparr>total = 5, remaining = 4, reset = 1700000060\<rparr>,
           \<lparr>world = \<lparr>watch_replies = [], mget_replies = [], exec_replies = [], clock = []\<rparr>,
            sent = [WATCH [''limit:a:count''], MGET [''limit:a:count'', ''limit:a:reset''],
                    EXEC [SET ''limit:a:count'' 4 60000 NX,
                          SET ''limit:a:reset'' 1700000060 60000 NX]]\<rparr>)"
proof -
  let ?st = "start \<lparr>watch_replies = [JPrim JNull],
             mget_replies = [(JPrim JNull, [JNull, JNull])],
             exec_replies = [(JPrim JNull, JArr [JPrim (JStr ''OK''), JPrim (JStr ''OK'')])],
             clock = [1700000000123]\<rparr>"
  let ?o = "get_opts lim5 (Some 2)"
  let ?w = "watch scripted [opt_count ?o] ?st"
  let ?m = "mget_keys scripted [opt_count ?o, opt_reset ?o] (snd ?w)"
  let ?t = "now scripted (snd ?m)"
  let ?x = "multi_exec scripted [SET (opt_count ?o) 4 (lim_duration lim5) NX,
              SET (opt_reset ?o) ((fst ?t + lim_duration lim5) div 1000) (lim_duration lim5) NX]
              (snd ?t)"
  have w: "?w = (fst ?w, snd ?w)" and m: "?m = ((fst (fst ?m), snd (fst ?m)), snd ?m)"
    and t: "?t = (fst ?t, snd ?t)" and x: "?x = ((fst (fst ?x), snd (fst ?x)), snd ?x)"
    by simp_all
  have e0: "\<not> truthy (fst ?w)" and e1: "\<not> truthy (fst (fst ?m))"
    and e2: "\<not> truthy (fst (fst ?x))"
    by (simp_all add: script_defs)
  have absent: "item (snd (fst ?m)) 0 = JNull"
    by (simp add: script_defs item_def)
  have commit: "\<not> isFirstReplyNull (snd (fst ?x))"
    by (simp add: script_defs isFirstReplyNull_def)
  have range: "0 \<le> fst ?t + lim_duration lim5" "fst ?t + lim_duration lim5 < 2147483648000"
    by (simp_all add: script_defs lim5_def)
  have adj: "(4::int) = max 0 (lim_max lim5 - (opt_decrBy ?o - 1))"
    by (simp add: lim5_def get_opts_def)
  show ?thesis
    using fresh_window_in_range [OF refl w e0 m e1 absent t range adj x e2 commit, of 0]
    by (simp add: script_defs get_opts_def lim5_def)
qed

text \<open>
  C1 fails in the code from 19 January 2038 on.  \<^verbatim>\<open>create\<close> takes the whole seconds of
  \<^verbatim>\<open>(Date.now() + duration) / 1000\<close> with \<^verbatim>\<open>| 0\<close>, which also wraps the result to 32
  bits.  With the default maximum and duration and the clock at 2147480048000 ms
  (02:14:08 UTC that day), the claim's reset is
  \<open>floor ((now + duration) / 1000) = 2147483648\<close>; the reset that is stored and answered
  is -2147483648.  The call that follows a second later reads that reset back and sends
  its decrement with a time to live of -4294963697000 ms.
\<close>

theorem reset_wraps_in_2038:
  "get (Suc 0) scripted
     \<lparr>lim_id = ''a'', lim_max = 2500, lim_duration = 3600000, lim_prefix = ''limit:a:''\<rparr> None
     (start \<lparr>watch_replies = [JPrim JNull], mget_replies = [(JPrim JNull, [JNull, JNull])],
             exec_replies = [(JPrim JNull, JArr [JPrim (JStr ''OK''), JPrim (JStr ''OK'')])],
             clock = [2147480048000]\<rparr>)
   = Some (Inr \<lparr>total = 2500, remaining = 2500, reset = - 2147483648\<rparr>,
           \<lparr>world = \<lparr>watch_replies = [], mget_replies = [], exec_replies = [], clock = []\<rparr>,
            sent = [WATCH [''limit:a:count''], MGET [''limit:a:count'', ''limit:a:reset''],
                    EXEC [SET ''limit:a:count'' 2500 3600000 NX,
                          SET ''limit:a:reset'' (- 2147483648) 3600000 NX]]\<rparr>)
   \<and> \<lfloor>(2147480048000 + 3600000) / (1000::real)\<rfloor> = 2147483648
   \<and> get (Suc 0) scripted
     \<lparr>lim_id = ''a'', lim_max = 2500, lim_duration = 3600000, lim_prefix = ''limit:a:''\<rparr> None
     (start \<lparr>watch_replies = [JPrim JNull],
             mget_replies = [(JPrim JNull, [JStr ''2500'', JStr ''-2147483648''])],
             exec_replies = [(JPrim JNull, JArr [JPrim (JStr ''OK''), JPrim (JNum (Fin 1))])],
             clock = [2147480049000]\<rparr>)
   = Some (Inr \<lparr>total = 2500, remaining = 2499, reset = - 2147483648\<rparr>,
           \<lparr>world = \<lparr>watch_replies = [], mget_replies = [], exec_replies = [], clock = []\<rparr>,
            sent = [WATCH [''limit:a:count''], MGET [''limit:a:count'', ''limit:a:reset''],
                    EXEC [SET ''limit:a:count'' 2499 (- 4294963697000) XX,
                          PEXPIRE ''limit:a:reset'' (- 4294963697000)]]\<rparr>)"
  by (simp add: get_def get_opts_def script_defs item_def isFirstReplyNull_def
        not_not_def decimal_def trunc_def wrap32_def done_cb_def)

section \<open>Counting down an existing window\<close>

text \<open>
  Inside the 32-bit range the decrement is as specified.  A call \<^verbatim>\<open>get(decrBy)\<close> whose
  read finds a count that holds the integer \<open>n\<close> and a reset that holds the integer
  \<open>ex\<close>, and whose decrement transaction commits, answers the instance's own maximum,
  \<open>max (n - decrBy) 0\<close> and \<open>ex\<close>; provided \<open>0 < n < 2^31\<close> and
  \<open>- 2^31 \<le> ex < 2^31\<close>.
\<close>

lemma decrement_commit_in_range:
  assumes o: "opts = get_opts this d"
    and w: "watch env [opt_count opts] st = (e0, st1)" and e0: "\<not> truthy e0"
    and m: "mget_keys env [opt_count opts, opt_reset opts] st1 = ((e1, res), st2)"
    and e1: "\<not> truthy e1"
    and present: "truthy_prim (item res 0) \<or> item res 0 = JNum (Fin 0)"
    and n: "toNumber (StringToNumber env) (item res 0) = Fin (of_int n)"
    and pos: "0 < n" and small: "n < 2147483648"
    and ex: "toNumber (StringToNumber env) (item res 1) = Fin (of_int ex)"
    and exr: "- 2147483648 \<le> ex" "ex < 2147483648"
    and t: "now env st2 = (t, st3)"
    and x: "multi_exec env [SET (opt_count opts) (n - opt_decrBy opts) (ex * 1000 - t) XX,
                            PEXPIRE (opt_reset opts) (ex * 1000 - t)] st3 = ((e2, rep), st4)"
    and e2: "\<not> truthy e2" and commit: "\<not> isFirstReplyNull rep"
  shows "get (Suc k) env this d st
           = Some (Inr \<lparr>total = lim_max this, remaining = max (n - opt_decrBy opts) 0,
                         reset = ex\<rparr>, st4)"
proof -
  have om: "opt_max opts = lim_max this"
    using o by (simp add: get_opts_def)
  have n': "not_not (StringToNumber env) (item res 0) = n"
    using n pos small by (simp add: not_not_def trunc_of_int wrap32_signed_id)
  have ex': "not_not (StringToNumber env) (item res 1) = ex"
    using ex exr by (simp add: not_not_def trunc_of_int wrap32_signed_id)
  have "mget (Suc k) env opts st = decr k env opts res st2"
    using w e0 m e1 present by auto
  also have "\<dots> = Some (Inr (done_cb opts (n - opt_decrBy opts) ex), st4)"
    using pos t x e2 commit unfolding decr.simps n' ex' by (simp add: Let_def)
  finally show ?thesis
    using o om by (simp add: get_def done_cb_def)
qed

text \<open>\<^verbatim>\<open>get(2)\<close> on a window holding 4 until second 1700000060: 2 remain.\<close>

lemma decrement_commit_example:
  "get (Suc 0) scripted lim5 (Some 2)
     (start \<lparr>watch_replies = [JPrim JNull],
             mget_replies = [(JPrim JNull, [JStr ''4'', JStr ''1700000060''])],
             exec_replies = [(JPrim JNull, JArr [JPrim (JStr ''OK''), JPrim (JNum (Fin 1))])],
             clock = [1700000000123]\<rparr>)
   = Some (Inr \<lparr>total = 5, remaining = 2, reset = 1700000060\<rparr>,
           \<lparr>world = \<lparr>watch_replies = [], mget_replies = [], exec_replies = [], clock = []\<rparr>,
            sent = [WATCH [''limit:a:count''], MGET [''limit:a:count'', ''limit:a:reset''],
                    EXEC [SET ''limit:a:count'' 2 59877 XX,
                          PEXPIRE ''limit:a:reset'' 59877]]\<rparr>)"
proof -
  let ?st = "start \<lparr>watch_replies = [JPrim JNull],
             mget_replies = [(JPrim JNull, [JStr ''4'', JStr ''1700000060''])],
             exec_replies = [(JPrim JNull, JArr [JPrim (JStr ''OK''), JPrim (JNum (Fin 1))])],
             clock = [1700000000123]\<rparr>"
  let ?o = "get_opts lim5 (Some 2)"
  let ?w = "watch scripted [opt_count ?o] ?st"
  let ?m = "mget_keys scripted [opt_count ?o, opt_reset ?o] (snd ?w)"
  let ?t = "now scripted (snd ?m)"
  let ?x = "multi_exec scripted
              [SET (opt_count ?o) (4 - opt_decrBy ?o) (1700000060 * 1000 - fst ?t) XX,
               PEXPIRE (opt_reset ?o) (1700000060 * 1000 - fst ?t)] (snd ?t)"
  have w: "?w = (fst ?w, snd ?w)" and m: "?m = ((fst (fst ?m), snd (fst ?m)), snd ?m)"
    and t: "?t = (fst ?t, snd ?t)" and x: "?x = ((fst (fst ?x), snd (fst ?x)), snd ?x)"
    by simp_all
  have e0: "\<not> truthy (fst ?w)" and e1: "\<not> truthy (fst (fst ?m))"
    and e2: "\<not> truthy (fst (fst ?x))"
    by (simp_all add: script_defs)
  have present: "truthy_prim (item (snd (fst ?m)) 0) \<or> item (snd (fst ?m)) 0 = JNum (Fin 0)"
    by (simp add: script_defs item_def)
  have n: "toNumber (StringToNumber scripted) (item (snd (fst ?m)) 0) = Fin (of_int 4)"
    and ex: "toNumber (StringToNumber scripted) (item (snd (fst ?m)) 1)
               = Fin (of_int 1700000060)"
    by (simp_all add: script_defs item_def decimal_def)
  have pos: "(0::int) < 4" and small: "(4::int) < 2147483648"
    and exr: "- 2147483648 \<le> (1700000060::int)" "(1700000060::int) < 2147483648"
    by simp_all
  have commit: "\<not> isFirstReplyNull (snd (fst ?x))"
    by (simp add: script_defs isFirstReplyNull_def)
  show ?thesis
    using decrement_commit_in_range
            [OF refl w e0 m e1 present n pos small ex exr t x e2 commit, of 0]
    by (simp add: script_defs get_opts_def lim5_def)
qed

text \<open>
  C2 fails in the code on a stored count of \<open>2^31\<close> or more.  \<^verbatim>\<open>create\<close> stores and
  answers the count as it is, \<^verbatim>\<open>decr\<close> reads it back through \<^verbatim>\<open>~~\<close>.  An instance with
  maximum 5000000000 creates its window with count 5000000000 and answers 5000000000
  remaining; its next call reads \<^verbatim>\<open>"5000000000"\<close>, its decrement commits, and it
  answers 705032703 remaining, where the claim gives
  \<open>max (5000000000 - 1) 0 = 4999999999\<close>.
\<close>

theorem stored_count_wraps:
  "get (Suc 0) scripted
     \<lparr>lim_id = ''a'', lim_max = 5000000000, lim_duration = 3600000,
      lim_prefix = ''limit:a:''\<rparr> None
     (start \<lparr>watch_replies = [JPrim JNull], mget_replies = [(JPrim JNull, [JNull, JNull])],
             exec_replies = [(JPrim JNull, JArr [JPrim (JStr ''OK''), JPrim (JStr ''OK'')])],
             clock = [1700000000123]\<rparr>)
   = Some (Inr \<lparr>total = 5000000000, remaining = 5000000000, reset = 1700003600\<rparr>,
           \<lparr>world = \<lparr>watch_replies = [], mget_replies = [], exec_replies = [], clock = []\<rparr>,
            sent = [WATCH [''limit:a:count''], MGET [''limit:a:count'', ''limit:a:reset''],
                    EXEC [SET ''limit:a:count'' 5000000000 3600000 NX,
                          SET ''limit:a:reset'' 1700003600 3600000 NX]]\<rparr>)
   \<and> get (Suc 0) scripted
     \<lparr>lim_id = ''a'', lim_max = 5000000000, lim_duration = 3600000,
      lim_prefix = ''limit:a:''\<rparr> None
     (start \<lparr>watch_replies = [JPrim JNull],
             mget_replies = [(JPrim JNull, [JStr ''5000000000'', JStr ''1700003600''])],
             exec_replies = [(JPrim JNull, JArr [JPrim (JStr ''OK''), JPrim (JNum (Fin 1))])],
             clock = [1700000001123]\<rparr>)
   = Some (Inr \<lparr>total = 5000000000, remaining = 705032703, reset = 1700003600\<rparr>,
           \<lparr>world = \<lparr>watch_replies = [], mget_replies = [], exec_replies = [], clock = []\<rparr>,
            sent = [WATCH [''limit:a:count''], MGET [''limit:a:count'', ''limit:a:reset''],
                    EXEC [SET ''limit:a:count'' 705032703 3598877 XX,
                          PEXPIRE ''limit:a:reset'' 3598877]]\<rparr>)
   \<and> max (5000000000 - 1) (0::int) = 4999999999"
  by (simp add: get_def get_opts_def script_defs item_def isFirstReplyNull_def
        not_not_def decimal_def trunc_def wrap32_def done_cb_def)

text \<open>
  C3.  A call whose read finds a count that parses to \<open>n \<le> 0\<close> answers at once with
  the maximum, \<open>max n 0\<close> (which is 0) and \<open>ex\<close>; the only commands it has sent are
  the watch and the read, so it has written nothing.
\<close>

theorem exhausted_no_write:
  assumes o: "opts = get_opts this d"
    and w: "watch env [opt_count opts] st = (e0, st1)" and e0: "\<not> truthy e0"
    and m: "mget_keys env [opt_count opts, opt_reset opts] st1 = ((e1, res), st2)"
    and e1: "\<not> truthy e1"
    and present: "truthy_prim (item res 0) \<or> item res 0 = JNum (Fin 0)"
    and n: "n = not_not (StringToNumber env) (item res 0)" and le: "n \<le> 0"
    and ex: "ex = not_not (StringToNumber env) (item res 1)"
    and t: "now env st2 = (t, st3)"
  shows "get (Suc k) env this d st
           = Some (Inr \<lparr>total = lim_max this, remaining = max n 0, reset = ex\<rparr>, st3)
       \<and> max n 0 = 0
       \<and> sent st3 = sent st @ [WATCH [opt_count opts], MGET [opt_count opts, opt_reset opts]]"
proof -
  have om: "opt_max opts = lim_max this"
    using o by (simp add: get_opts_def)
  have "mget (Suc k) env opts st = decr k env opts res st2"
    using w e0 m e1 present by auto
  also have "\<dots> = Some (Inr (done_cb opts n ex), st3)"
    using n le ex t by (simp add: Let_def)
  finally have 1: "get (Suc k) env this d st
           = Some (Inr \<lparr>total = lim_max this, remaining = max n 0, reset = ex\<rparr>, st3)"
    using o om by (simp add: get_def done_cb_def)
  have 2: "sent st3 = sent st @ [WATCH [opt_count opts], MGET [opt_count opts, opt_reset opts]]"
    using sent_watch [OF w] sent_mget_keys [OF m] sent_now [OF t] by simp
  show ?thesis using 1 2 le by simp
qed

text \<open>A window already at \<^verbatim>\<open>"0"\<close>: the answer is 0 remaining, and no transaction is sent.\<close>

theorem exhausted_no_write_witness:
  "get (Suc 0) scripted lim5 None
     (start \<lparr>watch_replies = [JPrim JNull],
             mget_replies = [(JPrim JNull, [JStr ''0'', JStr ''1700000060''])],
             exec_replies = [], clock = [1700000000123]\<rparr>)
   = Some (Inr \<lparr>total = 5, remaining = 0, reset = 1700000060\<rparr>,
           \<lparr>world = \<lparr>watch_replies = [], mget_replies = [], exec_replies = [], clock = []\<rparr>,
            sent = [WATCH [''limit:a:count''], MGET [''limit:a:count'', ''limit:a:reset'']]\<rparr>)"
proof -
  let ?st = "start \<lparr>watch_replies = [JPrim JNull],
             mget_replies = [(JPrim JNull, [JStr ''0'', JStr ''1700000060''])],
             exec_replies = [], clock = [1700000000123]\<rparr>"
  let ?o = "get_opts lim5 None"
  let ?w = "watch scripted [opt_count ?o] ?st"
  let ?m = "mget_keys scripted [opt_count ?o, opt_reset ?o] (snd ?w)"
  let ?t = "now scripted (snd ?m)"
  have w: "?w = (fst ?w, snd ?w)" and m: "?m = ((fst (fst ?m), snd (fst ?m)), snd ?m)"
    and t: "?t = (fst ?t, snd ?t)"
    by simp_all
  have e0: "\<not> truthy (fst ?w)" and e1: "\<not> truthy (fst (fst ?m))"
    by (simp_all add: script_defs)
  have present: "truthy_prim (item (snd (fst ?m)) 0) \<or> item (snd (fst ?m)) 0 = JNum (Fin 0)"
    by (simp add: script_defs item_def)
  have n: "(0::int) = not_not (StringToNumber scripted) (item (snd (fst ?m)) 0)"
    and ex: "(1700000060::int) = not_not (StringToNumber scripted) (item (snd (fst ?m)) 1)"
    by (simp_all add: script_defs item_def not_not_def decimal_def trunc_def wrap32_def)
  have le: "(0::int) \<le> 0" by simp
  show ?thesis
    using exhausted_no_write [OF refl w e0 m e1 present n le ex t, of 0]
    by (simp add: script_defs get_opts_def lim5_def)
qed

section \<open>Losing a race\<close>

text \<open>
  C4.  When the transaction of \<^verbatim>\<open>create\<close> or of \<^verbatim>\<open>decr\<close> comes back without an error
  and \<^verbatim>\<open>isFirstReplyNull\<close> holds of its replies, the call is, from the state the
  transaction left, a call of \<^verbatim>\<open>mget\<close>: the function that watches and reads again.  It
  takes no argument from the failed attempt, so what was read before is not used.
  \<^verbatim>\<open>isFirstReplyNull\<close> holds of missing replies (\<^verbatim>\<open>null\<close>, \<^verbatim>\<open>undefined\<close>) and of a
  falsy first reply in either shape, bare or paired with its error.
\<close>

theorem lost_race_restarts:
  assumes t: "now env st = (t, st1)"
    and e: "\<not> truthy err" and lost: "isFirstReplyNull rep"
    and n: "n = not_not (StringToNumber env) (item res 0)"
    and ex: "ex = not_not (StringToNumber env) (item res 1)"
  shows "(multi_exec env
            [SET (opt_count opts) (max (opt_max opts - (opt_decrBy opts - 1)) 0)
               (opt_duration opts) NX,
             SET (opt_reset opts) (toInt32 (Fin (of_int (t + opt_duration opts) / 1000)))
               (opt_duration opts) NX] st1 = ((err, rep), st2)
          \<longrightarrow> create k env opts st = mget k env opts st2)
       \<and> (0 < n \<and> multi_exec env
            [SET (opt_count opts) (n - opt_decrBy opts) (ex * 1000 - t) XX,
             PEXPIRE (opt_reset opts) (ex * 1000 - t)] st1 = ((err, rep), st2')
          \<longrightarrow> decr k env opts res st = mget k env opts st2')
       \<and> isFirstReplyNull (JPrim JNull) \<and> isFirstReplyNull (JPrim JUndefined)
       \<and> (\<forall>p rs. \<not> truthy_prim p \<longrightarrow> isFirstReplyNull (JArr (JPrim p # rs)))
       \<and> (\<forall>e' p rs. \<not> truthy_prim p \<longrightarrow> isFirstReplyNull (JArr (JArr [e', JPrim p] # rs)))"
proof -
  have 1: "multi_exec env
            [SET (opt_count opts) (max (opt_max opts - (opt_decrBy opts - 1)) 0)
               (opt_duration opts) NX,
             SET (opt_reset opts) (toInt32 (Fin (of_int (t + opt_duration opts) / 1000)))
               (opt_duration opts) NX] st1 = ((err, rep), st2)
          \<longrightarrow> create k env opts st = mget k env opts st2"
    using t e lost by (simp add: Let_def)
  have 2: "0 < n \<and> multi_exec env
            [SET (opt_count opts) (n - opt_decrBy opts) (ex * 1000 - t) XX,
             PEXPIRE (opt_reset opts) (ex * 1000 - t)] st1 = ((err, rep), st2')
          \<longrightarrow> decr k env opts res st = mget k env opts st2'"
    using t e lost n ex by (simp add: Let_def)
  have 3: "isFirstReplyNull (JPrim JNull) \<and> isFirstReplyNull (JPrim JUndefined)
       \<and> (\<forall>p rs. \<not> truthy_prim p \<longrightarrow> isFirstReplyNull (JArr (JPrim p # rs)))
       \<and> (\<forall>e' p rs. \<not> truthy_prim p \<longrightarrow> isFirstReplyNull (JArr (JArr [e', JPrim p] # rs)))"
    by (simp add: isFirstReplyNull_def)
  show ?thesis using 1 2 3 by blast
qed

text \<open>
  Two lost races on \<open>lim5\<close>.  A creation whose transaction comes back \<^verbatim>\<open>null\<close> (node_redis)
  reads again, finds the 5 another caller has stored, and counts down to 4.  A decrement
  from a count of 5 whose first reply is \<^verbatim>\<open>[null, null]\<close> (ioredis) reads again, finds 3,
  and answers 2: nothing of the 5 is left in the answer.
\<close>

theorem lost_race_restarts_witness:
  "create (Suc 0) scripted (get_opts lim5 None)
     (start \<lparr>watch_replies = [JPrim JNull],
             mget_replies = [(JPrim JNull, [JStr ''5'', JStr ''1700000060''])],
             exec_replies = [(JPrim JNull, JPrim JNull),
                             (JPrim JNull, JArr [JPrim (JStr ''OK''), JPrim (JNum (Fin 1))])],
             clock = [1700000000123, 1700000000200]\<rparr>)
   = Some (Inr \<lparr>total = 5, remaining = 4, reset = 1700000060\<rparr>,
           \<lparr>world = \<lparr>watch_replies = [], mget_replies = [], exec_replies = [], clock = []\<rparr>,
            sent = [EXEC [SET ''limit:a:count'' 5 60000 NX,
                          SET ''limit:a:reset'' 1700000060 60000 NX],
                    WATCH [''limit:a:count''], MGET [''limit:a:count'', ''limit:a:reset''],
                    EXEC [SET ''limit:a:count'' 4 59800 XX,
                          PEXPIRE ''limit:a:reset'' 59800]]\<rparr>)
   \<and> decr (Suc 0) scripted (get_opts lim5 None) [JStr ''5'', JStr ''1700000060'']
     (start \<lparr>watch_replies = [JPrim JNull],
             mget_replies = [(JPrim JNull, [JStr ''3'', JStr ''1700000060''])],
             exec_replies = [(JPrim JNull, JArr [JArr [JPrim JNull, JPrim JNull],
                                                 JArr [JPrim JNull, JPrim (JNum (Fin 1))]]),
                             (JPrim JNull, JArr [JArr [JPrim JNull, JPrim (JStr ''OK'')],
                                                 JArr [JPrim JNull, JPrim (JNum (Fin 1))]])],
             clock = [1700000000123, 1700000000200]\<rparr>)
   = Some (Inr \<lparr>total = 5, remaining = 2, reset = 1700000060\<rparr>,
           \<lparr>world = \<lparr>watch_replies = [], mget_replies = [], exec_replies = [], clock = []\<rparr>,
            sent = [EXEC [SET ''limit:a:count'' 4 59877 XX,
                          PEXPIRE ''limit:a:reset'' 59877],
                    WATCH [''limit:a:count''], MGET [''limit:a:count'', ''limit:a:reset''],
                    EXEC [SET ''limit:a:count'' 2 59800 XX,
                          PEXPIRE ''limit:a:reset'' 59800]]\<rparr>)"
proof -
  let ?o = "get_opts lim5 None"
  let ?sc = "start \<lparr>watch_replies = [JPrim JNull],
             mget_replies = [(JPrim JNull, [JStr ''5'', JStr ''1700000060''])],
             exec_replies = [(JPrim JNull, JPrim JNull),
                             (JPrim JNull, JArr [JPrim (JStr ''OK''), JPrim (JNum (Fin 1))])],
             clock = [1700000000123, 1700000000200]\<rparr>"
  let ?tc = "now scripted ?sc"
  let ?xc = "multi_exec scripted
      [SET (opt_count ?o) (max (opt_max ?o - (opt_decrBy ?o - 1)) 0) (opt_duration ?o) NX,
       SET (opt_reset ?o) (toInt32 (Fin (of_int (fst ?tc + opt_duration ?o) / 1000)))
         (opt_duration ?o) NX] (snd ?tc)"
  have tc: "?tc = (fst ?tc, snd ?tc)" by simp
  have ec: "\<not> truthy (fst (fst ?xc))" and lc: "isFirstReplyNull (snd (fst ?xc))"
    by (simp_all add: script_defs isFirstReplyNull_def)
  have 1: "create (Suc 0) scripted ?o ?sc = mget (Suc 0) scripted ?o (snd ?xc)"
    using lost_race_restarts [OF tc ec lc refl refl, where opts = ?o and ?st2.0 = "snd ?xc"
        and k = "Suc 0"]
    by simp
  let ?res = "[JStr ''5'', JStr ''1700000060'']"
  let ?sd = "start \<lparr>watch_replies = [JPrim JNull],
             mget_replies = [(JPrim JNull, [JStr ''3'', JStr ''1700000060''])],
             exec_replies = [(JPrim JNull, JArr [JArr [JPrim JNull, JPrim JNull],
                                                 JArr [JPrim JNull, JPrim (JNum (Fin 1))]]),
                             (JPrim JNull, JArr [JArr [JPrim JNull, JPrim (JStr ''OK'')],
                                                 JArr [JPrim JNull, JPrim (JNum (Fin 1))]])],
             clock = [1700000000123, 1700000000200]\<rparr>"
  let ?td = "now scripted ?sd"
  let ?n = "not_not (StringToNumber scripted) (item ?res 0)"
  let ?ex = "not_not (StringToNumber scripted) (item ?res 1)"
  let ?xd = "multi_exec scripted
      [SET (opt_count ?o) (?n - opt_decrBy ?o) (?ex * 1000 - fst ?td) XX,
       PEXPIRE (opt_reset ?o) (?ex * 1000 - fst ?td)] (snd ?td)"
  have td: "?td = (fst ?td, snd ?td)" by simp
  have ed: "\<not> truthy (fst (fst ?xd))" and ld: "isFirstReplyNull (snd (fst ?xd))"
    by (simp_all add: script_defs isFirstReplyNull_def)
  have pos: "0 < ?n"
    by (simp add: script_defs item_def not_not_def decimal_def trunc_def wrap32_def)
  have 2: "decr (Suc 0) scripted ?o ?res ?sd = mget (Suc 0) scripted ?o (snd ?xd)"
    using lost_race_restarts [OF td ed ld refl refl, where opts = ?o and ?st2' = "snd ?xd"
        and k = "Suc 0" and res = ?res] pos
    by simp
  show ?thesis
    unfolding 1 2
    by (simp add: script_defs get_opts_def lim5_def item_def not_not_def decimal_def
          trunc_def wrap32_def isFirstReplyNull_def done_cb_def)
qed

section \<open>The branch of the probe\<close>

text \<open>
  C5.  After a watch and a read that succeed, on what the store can answer for the
  count key (\<^verbatim>\<open>null\<close> when the key is absent; otherwise the value that was set, which
  is the text of a number and so a string that is not empty, or a finite number where
  the client converts its replies), \<^verbatim>\<open>mget\<close> goes to \<^verbatim>\<open>create\<close> exactly when the count
  is absent, and to \<^verbatim>\<open>decr\<close> otherwise.  In particular a count of \<^verbatim>\<open>0\<close> or \<^verbatim>\<open>"0"\<close>
  goes to \<^verbatim>\<open>decr\<close>: the test \<^verbatim>\<open>!res[0] && res[0] !== 0\<close> is a test of presence on these
  values, not a test of falsiness.
\<close>

theorem probe_branch:
  assumes w: "watch env [opt_count opts] st = (e0, st1)" and e0: "\<not> truthy e0"
    and m: "mget_keys env [opt_count opts, opt_reset opts] st1 = ((e1, res), st2)"
    and e1: "\<not> truthy e1"
    and held: "item res 0 = JNull \<or> (\<exists>s. item res 0 = JStr s \<and> s \<noteq> [])
                 \<or> (\<exists>r. item res 0 = JNum (Fin r))"
  shows "mget (Suc k) env opts st
           = (if item res 0 = JNull then create k env opts st2 else decr k env opts res st2)
       \<and> (item res 0 = JNum (Fin 0) \<or> item res 0 = JStr ''0''
            \<longrightarrow> mget (Suc k) env opts st = decr k env opts res st2)"
proof -
  have "(item res 0 \<in> {JUndefined, JNull, JBool False, JNum NaN, JStr []}) = (item res 0 = JNull)"
    using held by auto
  then have "mget (Suc k) env opts st
           = (if item res 0 = JNull then create k env opts st2 else decr k env opts res st2)"
    using w e0 m e1 falsy_not_zero [of "item res 0"] by simp
  then show ?thesis by auto
qed


text \<open>
  A count of \<^verbatim>\<open>"0"\<close> is an exhausted window: the call answers and writes nothing.  An
  absent count is a missing window: the call creates one.
\<close>

theorem probe_branch_witness:
  "mget (Suc 0) scripted (get_opts lim5 None)
     (start \<lparr>watch_replies = [JPrim JNull],
             mget_replies = [(JPrim JNull, [JStr ''0'', JStr ''1700000060''])],
             exec_replies = [], clock = [1700000000123]\<rparr>)
   = Some (Inr \<lparr>total = 5, remaining = 0, reset = 1700000060\<rparr>,
           \<lparr>world = \<lparr>watch_replies = [], mget_replies = [], exec_replies = [], clock = []\<rparr>,
            sent = [WATCH [''limit:a:count''], MGET [''limit:a:count'', ''limit:a:reset'']]\<rparr>)
   \<and> mget (Suc 0) scripted (get_opts lim5 None)
     (start \<lparr>watch_replies = [JPrim JNull],
             mget_replies = [(JPrim JNull, [JNull, JNull])],
             exec_replies = [(JPrim JNull, JArr [JPrim (JStr ''OK''), JPrim (JStr ''OK'')])],
             clock = [1700000000123]\<rparr>)
   = Some (Inr \<lparr>total = 5, remaining = 5, reset = 1700000060\<rparr>,
           \<lparr>world = \<lparr>watch_replies = [], mget_replies = [], exec_replies = [], clock = []\<rparr>,
            sent = [WATCH [''limit:a:count''], MGET [''limit:a:count'', ''limit:a:reset''],
                    EXEC [SET ''limit:a:count'' 5 60000 NX,
                          SET ''limit:a:reset'' 1700000060 60000 NX]]\<rparr>)"
proof -
  let ?o = "get_opts lim5 None"
  let ?sa = "start \<lparr>watch_replies = [JPrim JNull],
             mget_replies = [(JPrim JNull, [JStr ''0'', JStr ''1700000060''])],
             exec_replies = [], clock = [1700000000123]\<rparr>"
  let ?wa = "watch scripted [opt_count ?o] ?sa"
  let ?ma = "mget_keys scripted [opt_count ?o, opt_reset ?o] (snd ?wa)"
  have wa: "?wa = (fst ?wa, snd ?wa)" and ma: "?ma = ((fst (fst ?ma), snd (fst ?ma)), snd ?ma)"
    by simp_all
  have ea0: "\<not> truthy (fst ?wa)" and ea1: "\<not> truthy (fst (fst ?ma))"
    by (simp_all add: script_defs)
  have za: "item (snd (fst ?ma)) 0 = JStr ''0''"
    by (simp add: script_defs item_def)
  then have ha: "item (snd (fst ?ma)) 0 = JNull
                 \<or> (\<exists>s. item (snd (fst ?ma)) 0 = JStr s \<and> s \<noteq> [])
                 \<or> (\<exists>r. item (snd (fst ?ma)) 0 = JNum (Fin r))"
    by simp
  have "mget (Suc 0) scripted ?o ?sa = decr 0 scripted ?o (snd (fst ?ma)) (snd ?ma)"
    using probe_branch [OF wa ea0 ma ea1 ha, of 0] za by simp
  then have 1: "mget (Suc 0) scripted ?o ?sa
   = Some (Inr \<lparr>total = 5, remaining = 0, reset = 1700000060\<rparr>,
           \<lparr>world = \<lparr>watch_replies = [], mget_replies = [], exec_replies = [], clock = []\<rparr>,
            sent = [WATCH [''limit:a:count''], MGET [''limit:a:count'', ''limit:a:reset'']]\<rparr>)"
    by (simp add: script_defs get_opts_def lim5_def item_def not_not_def decimal_def
          trunc_def wrap32_def done_cb_def)
  let ?sb = "start \<lparr>watch_replies = [JPrim JNull],
             mget_replies = [(JPrim JNull, [JNull, JNull])],
             exec_replies = [(JPrim JNull, JArr [JPrim (JStr ''OK''), JPrim (JStr ''OK'')])],
             clock = [1700000000123]\<rparr>"
  let ?wb = "watch scripted [opt_count ?o] ?sb"
  let ?mb = "mget_keys scripted [opt_count ?o, opt_reset ?o] (snd ?wb)"
  have wb: "?wb = (fst ?wb, snd ?wb)" and mb: "?mb = ((fst (fst ?mb), snd (fst ?mb)), snd ?mb)"
    by simp_all
  have eb0: "\<not> truthy (fst ?wb)" and eb1: "\<not> truthy (fst (fst ?mb))"
    by (simp_all add: script_defs)
  have zb: "item (snd (fst ?mb)) 0 = JNull"
    by (simp add: script_defs item_def)
  then have hb: "item (snd (fst ?mb)) 0 = JNull
                 \<or> (\<exists>s. item (snd (fst ?mb)) 0 = JStr s \<and> s \<noteq> [])
                 \<or> (\<exists>r. item (snd (fst ?mb)) 0 = JNum (Fin r))"
    by simp
  have "mget (Suc 0) scripted ?o ?sb = create 0 scripted ?o (snd ?mb)"
    using probe_branch [OF wb eb0 mb eb1 hb, of 0] zb by simp
  then have 2: "mget (Suc 0) scripted ?o ?sb
   = Some (Inr \<lparr>total = 5, remaining = 5, reset = 1700000060\<rparr>,
           \<lparr>world = \<lparr>watch_replies = [], mget_replies = [], exec_replies = [], clock = []\<rparr>,
            sent = [WATCH [''limit:a:count''], MGET [''limit:a:count'', ''limit:a:reset''],
                    EXEC [SET ''limit:a:count'' 5 60000 NX,
                          SET ''limit:a:reset'' 1700000060 60000 NX]]\<rparr>)"
    by (simp add: script_defs get_opts_def lim5_def item_def isFirstReplyNull_def
          trunc_def wrap32_def)
  show ?thesis using 1 2 by blast
qed

section \<open>The expirations of the two keys\<close>

lemma extends_trans: "extends opts a b \<Longrightarrow> extends opts b c \<Longrightarrow> extends opts a c"
  by (auto simp: extends_def)

lemma create_extends:
  assumes IH: "\<forall>st v st'. mget k env opts st = Some (v, st') \<longrightarrow> extends opts st st'"
    and run: "create k env opts st = Some (v, st')"
  shows "extends opts st st'"
proof -
  obtain t st1 where n: "now env st = (t, st1)" by (cases "now env st")
  let ?ops = "[SET (opt_count opts) (max (opt_max opts - (opt_decrBy opts - 1)) 0)
                 (opt_duration opts) NX,
               SET (opt_reset opts) (toInt32 (Fin (of_int (t + opt_duration opts) / 1000)))
                 (opt_duration opts) NX]"
  obtain err res st2 where e: "multi_exec env ?ops st1 = ((err, res), st2)"
    by (metis prod.exhaust)
  have a: "extends opts st st2"
    using sent_now [OF n] sent_multi_exec [OF e] by (simp add: extends_def)
  from run n e have "st' = st2 \<or> mget k env opts st2 = Some (v, st')"
    by (simp add: Let_def split: if_splits)
  then show ?thesis using a IH extends_trans by blast
qed

lemma decr_extends:
  assumes IH: "\<forall>st v st'. mget k env opts st = Some (v, st') \<longrightarrow> extends opts st st'"
    and run: "decr k env opts res st = Some (v, st')"
  shows "extends opts st st'"
proof -
  obtain t st1 where n: "now env st = (t, st1)" by (cases "now env st")
  let ?n = "not_not (StringToNumber env) (item res 0)"
  let ?ex = "not_not (StringToNumber env) (item res 1)"
  let ?ops = "[SET (opt_count opts) (?n - opt_decrBy opts) (?ex * 1000 - t) XX,
               PEXPIRE (opt_reset opts) (?ex * 1000 - t)]"
  obtain err rep st2 where e: "multi_exec env ?ops st1 = ((err, rep), st2)"
    by (metis prod.exhaust)
  have a1: "extends opts st st1"
    using sent_now [OF n] by (simp add: extends_def)
  have a: "extends opts st st2"
    using sent_now [OF n] sent_multi_exec [OF e] by (simp add: extends_def)
  from run n e have "st' = st1 \<or> st' = st2 \<or> mget k env opts st2 = Some (v, st')"
    by (simp add: Let_def split: if_splits)
  then show ?thesis using a a1 IH extends_trans by blast
qed

lemma mget_extends: "mget k env opts st = Some (v, st') \<Longrightarrow> extends opts st st'"
proof (induction k arbitrary: st v st')
  case 0
  then show ?case by simp
next
  case (Suc k)
  obtain e0 st1 where w: "watch env [opt_count opts] st = (e0, st1)"
    by (metis prod.exhaust)
  obtain e1 res st2
    where m: "mget_keys env [opt_count opts, opt_reset opts] st1 = ((e1, res), st2)"
    by (metis prod.exhaust)
  have a1: "extends opts st st1"
    using sent_watch [OF w] by (simp add: extends_def)
  have a2: "extends opts st st2"
    using sent_watch [OF w] sent_mget_keys [OF m] by (simp add: extends_def)
  from Suc.prems w m
  have "st' = st1 \<or> st' = st2 \<or> create k env opts st2 = Some (v, st')
          \<or> decr k env opts res st2 = Some (v, st')"
    by (simp split: if_splits)
  moreover
  have IH: "\<forall>st v st'. mget k env opts st = Some (v, st') \<longrightarrow> extends opts st st'"
    using Suc.IH by blast
  ultimately show ?case
    using a1 a2 create_extends [OF IH] decr_extends [OF IH] extends_trans by blast
qed

lemma decr_first_command:
  assumes t: "now env st = (t, st1)"
    and pos: "0 < not_not (StringToNumber env) (item res 0)"
    and run: "decr k env opts res st = Some (v, st')"
  shows "\<exists>rest. sent st' = sent st @
           EXEC [SET (opt_count opts)
                   (not_not (StringToNumber env) (item res 0) - opt_decrBy opts)
                   (not_not (StringToNumber env) (item res 1) * 1000 - t) XX,
                 PEXPIRE (opt_reset opts)
                   (not_not (StringToNumber env) (item res 1) * 1000 - t)] # rest"
proof -
  let ?n = "not_not (StringToNumber env) (item res 0)"
  let ?ex = "not_not (StringToNumber env) (item res 1)"
  let ?ops = "[SET (opt_count opts) (?n - opt_decrBy opts) (?ex * 1000 - t) XX,
               PEXPIRE (opt_reset opts) (?ex * 1000 - t)]"
  obtain err rep st2 where e: "multi_exec env ?ops st1 = ((err, rep), st2)"
    by (metis prod.exhaust)
  have s2: "sent st2 = sent st @ [EXEC ?ops]"
    using sent_now [OF t] sent_multi_exec [OF e] by simp
  from run t e pos have "st' = st2 \<or> mget k env opts st2 = Some (v, st')"
    by (simp add: Let_def split: if_splits)
  then have "\<exists>new. sent st' = sent st2 @ new"
    using mget_extends [of k env opts st2 v st'] by (auto simp: extends_def)
  then show ?thesis using s2 by auto
qed

text \<open>
  C6.  Whatever the store answers and however often the call retries, every command a
  call \<^verbatim>\<open>get\<close> has sent by the time it ends is aligned: each transaction is either the
  creation, setting count and reset with the configured duration, or a decrement, setting
  count and refreshing reset with one time to live.  That time to live is
  \<open>ex * 1000 - now\<close> for the one clock reading \<open>now\<close> of that \<^verbatim>\<open>decr\<close>.
\<close>

theorem expirations_aligned:
  "(get k env this d st = Some (v, st')
      \<longrightarrow> (\<exists>new. sent st' = sent st @ new \<and> list_all (aligned (get_opts this d)) new))
   \<and> (now env st = (t, st1) \<and> 0 < not_not (StringToNumber env) (item res 0)
        \<and> decr k env opts res st = Some (v, st')
      \<longrightarrow> (\<exists>rest. sent st' = sent st @
             EXEC [SET (opt_count opts)
                     (not_not (StringToNumber env) (item res 0) - opt_decrBy opts)
                     (not_not (StringToNumber env) (item res 1) * 1000 - t) XX,
                   PEXPIRE (opt_reset opts)
                     (not_not (StringToNumber env) (item res 1) * 1000 - t)] # rest))"
proof -
  have 1: "get k env this d st = Some (v, st')
      \<longrightarrow> (\<exists>new. sent st' = sent st @ new \<and> list_all (aligned (get_opts this d)) new)"
    using mget_extends [of k env "get_opts this d" st v st']
    by (simp add: get_def extends_def)
  show ?thesis using 1 decr_first_command by blast
qed

text \<open>
  A call that loses the creation race and then counts down: both transactions it has sent
  are aligned, the first on the duration 60000, the second on the 59800 ms that are left.
  And a \<^verbatim>\<open>decr\<close> on a window of 4 at 1700000000123 ms: its transaction carries
  \<open>1700000060 * 1000 - 1700000000123 = 59877\<close> twice.
\<close>

theorem expirations_aligned_witness:
  "list_all (aligned (get_opts lim5 None))
     [WATCH [''limit:a:count''], MGET [''limit:a:count'', ''limit:a:reset''],
      EXEC [SET ''limit:a:count'' 5 60000 NX, SET ''limit:a:reset'' 1700000060 60000 NX],
      WATCH [''limit:a:count''], MGET [''limit:a:count'', ''limit:a:reset''],
      EXEC [SET ''limit:a:count'' 4 59800 XX, PEXPIRE ''limit:a:reset'' 59800]]
   \<and> decr 0 scripted (get_opts lim5 None) [JStr ''4'', JStr ''1700000060'']
       (start \<lparr>watch_replies = [], mget_replies = [],
          exec_replies = [(JPrim JNull, JArr [JPrim (JStr ''OK''), JPrim (JNum (Fin 1))])],
          clock = [1700000000123]\<rparr>)
     = Some (Inr \<lparr>total = 5, remaining = 3, reset = 1700000060\<rparr>,
         \<lparr>world = \<lparr>watch_replies = [], mget_replies = [], exec_replies = [], clock = []\<rparr>,
          sent = [EXEC [SET ''limit:a:count'' 3 59877 XX,
                        PEXPIRE ''limit:a:reset'' 59877]]\<rparr>)
   \<and> (\<exists>rest. [EXEC [SET ''limit:a:count'' 3 59877 XX, PEXPIRE ''limit:a:reset'' 59877]]
          = EXEC [SET ''limit:a:count'' 3 (1700000060 * 1000 - 1700000000123) XX,
                  PEXPIRE ''limit:a:reset'' (1700000060 * 1000 - 1700000000123)] # rest)"
proof -
  let ?st = "start \<lparr>watch_replies = [JPrim JNull, JPrim JNull],
             mget_replies = [(JPrim JNull, [JNull, JNull]),
                             (JPrim JNull, [JStr ''5'', JStr ''1700000060''])],
             exec_replies = [(JPrim JNull, JPrim JNull),
                             (JPrim JNull, JArr [JPrim (JStr ''OK''), JPrim (JNum (Fin 1))])],
             clock = [1700000000123, 1700000000200]\<rparr>"
  let ?v = "Inr \<lparr>total = 5, remaining = 4, reset = 1700000060\<rparr> :: jsval + info"
  let ?st' = "\<lparr>world = \<lparr>watch_replies = [], mget_replies = [], exec_replies = [], clock = []\<rparr>,
     sent = [WATCH [''limit:a:count''], MGET [''limit:a:count'', ''limit:a:reset''],
      EXEC [SET ''limit:a:count'' 5 60000 NX, SET ''limit:a:reset'' 1700000060 60000 NX],
      WATCH [''limit:a:count''], MGET [''limit:a:count'', ''limit:a:reset''],
      EXEC [SET ''limit:a:count'' 4 59800 XX, PEXPIRE ''limit:a:reset'' 59800]]\<rparr>"
  have run: "get (Suc (Suc 0)) scripted lim5 None ?st = Some (?v, ?st')"
    by (simp add: get_def get_opts_def lim5_def script_defs item_def isFirstReplyNull_def
          not_not_def decimal_def trunc_def wrap32_def done_cb_def)
  have "\<exists>new. sent ?st' = sent ?st @ new \<and> list_all (aligned (get_opts lim5 None)) new"
    using expirations_aligned [where k = "Suc (Suc 0)" and env = scripted and this = lim5
        and d = None and st = ?st and v = ?v and st' = ?st'] run
    by blast
  then have 1: "list_all (aligned (get_opts lim5 None)) (sent ?st')"
    by (simp add: start_def)
  let ?o = "get_opts lim5 None"
  let ?res = "[JStr ''4'', JStr ''1700000060'']"
  let ?sd = "start \<lparr>watch_replies = [], mget_replies = [],
          exec_replies = [(JPrim JNull, JArr [JPrim (JStr ''OK''), JPrim (JNum (Fin 1))])],
          clock = [1700000000123]\<rparr>"
  let ?vd = "Inr \<lparr>total = 5, remaining = 3, reset = 1700000060\<rparr> :: jsval + info"
  let ?sd' = "\<lparr>world = \<lparr>watch_replies = [], mget_replies = [], exec_replies = [], clock = []\<rparr>,
          sent = [EXEC [SET ''limit:a:count'' 3 59877 XX,
                        PEXPIRE ''limit:a:reset'' 59877]]\<rparr>"
  let ?t = "now scripted ?sd"
  have t: "?t = (fst ?t, snd ?t)" by simp
  have pos: "0 < not_not (StringToNumber scripted) (item ?res 0)"
    by (simp add: script_defs item_def not_not_def decimal_def trunc_def wrap32_def)
  have rund: "decr 0 scripted ?o ?res ?sd = Some (?vd, ?sd')"
    by (simp add: get_opts_def lim5_def script_defs item_def isFirstReplyNull_def
          not_not_def decimal_def trunc_def wrap32_def done_cb_def)
  have "\<exists>rest. sent ?sd' = sent ?sd @
           EXEC [SET (opt_count ?o)
                   (not_not (StringToNumber scripted) (item ?res 0) - opt_decrBy ?o)
                   (not_not (StringToNumber scripted) (item ?res 1) * 1000 - fst ?t) XX,
                 PEXPIRE (opt_reset ?o)
                   (not_not (StringToNumber scripted) (item ?res 1) * 1000 - fst ?t)] # rest"
    using expirations_aligned [where k = 0 and env = scripted and st = ?sd and t = "fst ?t"
        and ?st1.0 = "snd ?t" and res = ?res and opts = ?o and v = ?vd and st' = ?sd']
      t pos rund
    by blast
  then have 2: "\<exists>rest. [EXEC [SET ''limit:a:count'' 3 59877 XX, PEXPIRE ''limit:a:reset'' 59877]]
          = EXEC [SET ''limit:a:count'' 3 (1700000060 * 1000 - 1700000000123) XX,
                  PEXPIRE ''limit:a:reset'' (1700000060 * 1000 - 1700000000123)] # rest"
    by (simp add: get_opts_def lim5_def script_defs item_def not_not_def decimal_def
          trunc_def wrap32_def)
  show ?thesis using 1 rund 2 by simp
qed

section \<open>The total that is reported\<close>

lemma create_total:
  assumes IH: "\<forall>st i st'. mget k env opts st = Some (Inr i, st') \<longrightarrow> total i = opt_max opts"
    and run: "create k env opts st = Some (Inr i, st')"
  shows "total i = opt_max opts"
proof -
  obtain t st1 where n: "now env st = (t, st1)" by (cases "now env st")
  let ?ops = "[SET (opt_count opts) (max (opt_max opts - (opt_decrBy opts - 1)) 0)
                 (opt_duration opts) NX,
               SET (opt_reset opts) (toInt32 (Fin (of_int (t + opt_duration opts) / 1000)))
                 (opt_duration opts) NX]"
  obtain err res st2 where e: "multi_exec env ?ops st1 = ((err, res), st2)"
    by (metis prod.exhaust)
  from run n e have "total i = opt_max opts \<or> mget k env opts st2 = Some (Inr i, st')"
    by (auto simp add: Let_def split: if_splits)
  then show ?thesis using IH by blast
qed

lemma decr_total:
  assumes IH: "\<forall>st i st'. mget k env opts st = Some (Inr i, st') \<longrightarrow> total i = opt_max opts"
    and run: "decr k env opts res st = Some (Inr i, st')"
  shows "total i = opt_max opts"
proof -
  obtain t st1 where n: "now env st = (t, st1)" by (cases "now env st")
  let ?n = "not_not (StringToNumber env) (item res 0)"
  let ?ex = "not_not (StringToNumber env) (item res 1)"
  let ?ops = "[SET (opt_count opts) (?n - opt_decrBy opts) (?ex * 1000 - t) XX,
               PEXPIRE (opt_reset opts) (?ex * 1000 - t)]"
  obtain err rep st2 where e: "multi_exec env ?ops st1 = ((err, rep), st2)"
    by (metis prod.exhaust)
  from run n e have "total i = opt_max opts \<or> mget k env opts st2 = Some (Inr i, st')"
    by (auto simp add: Let_def done_cb_def split: if_splits)
  then show ?thesis using IH by blast
qed

lemma mget_total: "mget k env opts st = Some (Inr i, st') \<Longrightarrow> total i = opt_max opts"
proof (induction k arbitrary: st i st')
  case 0
  then show ?case by simp
next
  case (Suc k)
  obtain e0 st1 where w: "watch env [opt_count opts] st = (e0, st1)"
    by (metis prod.exhaust)
  obtain e1 res st2
    where m: "mget_keys env [opt_count opts, opt_reset opts] st1 = ((e1, res), st2)"
    by (metis prod.exhaust)
  from Suc.prems w m
  have "create k env opts st2 = Some (Inr i, st') \<or> decr k env opts res st2 = Some (Inr i, st')"
    by (simp split: if_splits)
  moreover
  have IH: "\<forall>st i st'. mget k env opts st = Some (Inr i, st') \<longrightarrow> total i = opt_max opts"
    using Suc.IH by blast
  ultimately show ?case
    using create_total [OF IH] decr_total [OF IH] by blast
qed

lemma decr_p0_total:
  assumes t: "now env st = (t, st1)"
    and x: "multi_exec env
              [SET (p0_count o0) (not_not (StringToNumber env) (item res 0) - 1)
                 (not_not (StringToNumber env) (item res 2) * 1000 - t) XX,
               PEXPIRE (p0_limit o0) (not_not (StringToNumber env) (item res 2) * 1000 - t),
               PEXPIRE (p0_reset o0) (not_not (StringToNumber env) (item res 2) * 1000 - t)]
              st1 = ((err, rep), st2)"
    and settled: "not_not (StringToNumber env) (item res 0) \<le> 0
                  \<or> \<not> truthy err \<and> \<not> isFirstReplyNull rep"
  shows "\<exists>i s. decr_p0 k env o0 res st = Some (Inr i, s)
           \<and> total i = not_not (StringToNumber env) (item res 1)"
  using t x settled by (auto simp add: Let_def done_cb_p0_def)

text \<open>
  C7, as the code has it.  In \<^verbatim>\<open>src/index.js\<close> every answer of \<^verbatim>\<open>get\<close>, after any number
  of retries, carries the instance's own maximum as \<^verbatim>\<open>total\<close>, so two instances with
  different maxima answer different totals.  In \<^verbatim>\<open>src/unnamed/part_000\<close> a \<^verbatim>\<open>decr\<close> that
  answers without restarting (the window is exhausted, or its transaction commits) carries
  the value read back from the \<^verbatim>\<open>limit\<close> key, coerced to 32 bits.
\<close>

theorem total_is_own_maximum:
  "(get k env this d st = Some (Inr i, st') \<longrightarrow> total i = lim_max this)
   \<and> (get k env this d st = Some (Inr i, st') \<and> get k' env' that d' su = Some (Inr i', su')
        \<and> lim_max this \<noteq> lim_max that
      \<longrightarrow> total i \<noteq> total i')
   \<and> (now env st = (t, st1)
        \<and> multi_exec env
            [SET (p0_count o0) (not_not (StringToNumber env) (item res 0) - 1)
               (not_not (StringToNumber env) (item res 2) * 1000 - t) XX,
             PEXPIRE (p0_limit o0) (not_not (StringToNumber env) (item res 2) * 1000 - t),
             PEXPIRE (p0_reset o0) (not_not (StringToNumber env) (item res 2) * 1000 - t)]
            st1 = ((err, rep), st2)
        \<and> (not_not (StringToNumber env) (item res 0) \<le> 0
             \<or> \<not> truthy err \<and> \<not> isFirstReplyNull rep)
      \<longrightarrow> (\<exists>j s. decr_p0 k env o0 res st = Some (Inr j, s)
             \<and> total j = not_not (StringToNumber env) (item res 1)))"
proof -
  have a: "get k env this d st = Some (Inr i, st') \<Longrightarrow> total i = lim_max this"
    for k env this d i and st st' :: "'x run"
    using mget_total [of k env "get_opts this d" st i st']
    by (simp add: get_def get_opts_def)
  have 1: "get k env this d st = Some (Inr i, st') \<longrightarrow> total i = lim_max this"
    using a by blast
  have 2: "get k env this d st = Some (Inr i, st') \<and> get k' env' that d' su = Some (Inr i', su')
        \<and> lim_max this \<noteq> lim_max that
      \<longrightarrow> total i \<noteq> total i'"
    using a [of k env this d st i st'] a [of k' env' that d' su i' su'] by auto
  show ?thesis using 1 2 decr_p0_total by blast
qed

text \<open>
  Two instances on the identifier \<open>a\<close>, one with maximum 5 and one with maximum 10, ask
  about the same window of 4: each answers its own maximum.  In \<^verbatim>\<open>part_000\<close> the
  \<^verbatim>\<open>decr\<close> of an instance that finds 3 units and a stored limit of 7 answers 7.
\<close>

theorem total_is_own_maximum_witness:
  "get (Suc 0) scripted lim5 None
     (start \<lparr>watch_replies = [JPrim JNull],
             mget_replies = [(JPrim JNull, [JStr ''4'', JStr ''1700000060''])],
             exec_replies = [(JPrim JNull, JArr [JPrim (JStr ''OK''), JPrim (JNum (Fin 1))])],
             clock = [1700000000123]\<rparr>)
   = Some (Inr \<lparr>total = 5, remaining = 3, reset = 1700000060\<rparr>,
           \<lparr>world = \<lparr>watch_replies = [], mget_replies = [], exec_replies = [], clock = []\<rparr>,
            sent = [WATCH [''limit:a:count''], MGET [''limit:a:count'', ''limit:a:reset''],
                    EXEC [SET ''limit:a:count'' 3 59877 XX,
                          PEXPIRE ''limit:a:reset'' 59877]]\<rparr>)
   \<and> get (Suc 0) scripted (lim5\<lparr>lim_max := 10\<rparr>) None
     (start \<lparr>watch_replies = [JPrim JNull],
             mget_replies = [(JPrim JNull, [JStr ''4'', JStr ''1700000060''])],
             exec_replies = [(JPrim JNull, JArr [JPrim (JStr ''OK''), JPrim (JNum (Fin 1))])],
             clock = [1700000000123]\<rparr>)
   = Some (Inr \<lparr>total = 10, remaining = 3, reset = 1700000060\<rparr>,
           \<lparr>world = \<lparr>watch_replies = [], mget_replies = [], exec_replies = [], clock = []\<rparr>,
            sent = [WATCH [''limit:a:count''], MGET [''limit:a:count'', ''limit:a:reset''],
                    EXEC [SET ''limit:a:count'' 3 59877 XX,
                          PEXPIRE ''limit:a:reset'' 59877]]\<rparr>)
   \<and> total \<lparr>total = 5, remaining = 3, reset = 1700000060\<rparr>
       \<noteq> total \<lparr>total = 10, remaining = 3, reset = 1700000060\<rparr>
   \<and> (\<exists>j s. decr_p0 0 scripted (get_opts_p0 lim5)
                [JStr ''3'', JStr ''7'', JStr ''1700000060'']
                (start \<lparr>watch_replies = [], mget_replies = [],
                   exec_replies = [(JPrim JNull, JArr [JPrim (JStr ''OK''), JPrim (JNum (Fin 1)),
                                                       JPrim (JNum (Fin 1))])],
                   clock = [1700000000123]\<rparr>) = Some (Inr j, s)
          \<and> total j = 7)"
proof -
  let ?st = "start \<lparr>watch_replies = [JPrim JNull],
             mget_replies = [(JPrim JNull, [JStr ''4'', JStr ''1700000060''])],
             exec_replies = [(JPrim JNull, JArr [JPrim (JStr ''OK''), JPrim (JNum (Fin 1))])],
             clock = [1700000000123]\<rparr>"
  let ?st' = "\<lparr>world = \<lparr>watch_replies = [], mget_replies = [], exec_replies = [], clock = []\<rparr>,
            sent = [WATCH [''limit:a:count''], MGET [''limit:a:count'', ''limit:a:reset''],
                    EXEC [SET ''limit:a:count'' 3 59877 XX,
                          PEXPIRE ''limit:a:reset'' 59877]]\<rparr>"
  let ?i = "\<lparr>total = 5, remaining = 3, reset = 1700000060\<rparr>"
  let ?j = "\<lparr>total = 10, remaining = 3, reset = 1700000060\<rparr>"
  have r5: "get (Suc 0) scripted lim5 None ?st = Some (Inr ?i, ?st')"
    by (simp add: get_def get_opts_def lim5_def script_defs item_def isFirstReplyNull_def
          not_not_def decimal_def trunc_def wrap32_def done_cb_def)
  have r10: "get (Suc 0) scripted (lim5\<lparr>lim_max := 10\<rparr>) None ?st = Some (Inr ?j, ?st')"
    by (simp add: get_def get_opts_def lim5_def script_defs item_def isFirstReplyNull_def
          not_not_def decimal_def trunc_def wrap32_def done_cb_def)
  have ne: "lim_max lim5 \<noteq> lim_max (lim5\<lparr>lim_max := 10\<rparr>)"
    by (simp add: lim5_def)
  have 1: "total ?i \<noteq> total ?j"
    using total_is_own_maximum [where k = "Suc 0" and env = scripted and this = lim5
        and d = None and st = ?st and i = ?i and st' = ?st' and k' = "Suc 0"
        and env' = scripted and that = "lim5\<lparr>lim_max := 10\<rparr>" and d' = None and su = ?st
        and i' = ?j and su' = ?st'] r5 r10 ne
    by blast
  let ?o0 = "get_opts_p0 lim5"
  let ?res = "[JStr ''3'', JStr ''7'', JStr ''1700000060'']"
  let ?sp = "start \<lparr>watch_replies = [], mget_replies = [],
                   exec_replies = [(JPrim JNull, JArr [JPrim (JStr ''OK''), JPrim (JNum (Fin 1)),
                                                       JPrim (JNum (Fin 1))])],
                   clock = [1700000000123]\<rparr>"
  let ?t = "now scripted ?sp"
  let ?x = "multi_exec scripted
      [SET (p0_count ?o0) (not_not (StringToNumber scripted) (item ?res 0) - 1)
         (not_not (StringToNumber scripted) (item ?res 2) * 1000 - fst ?t) XX,
       PEXPIRE (p0_limit ?o0) (not_not (StringToNumber scripted) (item ?res 2) * 1000 - fst ?t),
       PEXPIRE (p0_reset ?o0) (not_not (StringToNumber scripted) (item ?res 2) * 1000 - fst ?t)]
      (snd ?t)"
  have t: "?t = (fst ?t, snd ?t)" and x: "?x = ((fst (fst ?x), snd (fst ?x)), snd ?x)"
    by simp_all
  have c: "\<not> truthy (fst (fst ?x)) \<and> \<not> isFirstReplyNull (snd (fst ?x))"
    by (simp add: script_defs isFirstReplyNull_def)
  have "\<exists>j s. decr_p0 0 scripted ?o0 ?res ?sp = Some (Inr j, s)
          \<and> total j = not_not (StringToNumber scripted) (item ?res 1)"
    using total_is_own_maximum [where env = scripted and st = ?sp and t = "fst ?t"
        and ?st1.0 = "snd ?t" and ?o0.0 = ?o0 and res = ?res and err = "fst (fst ?x)"
        and rep = "snd (fst ?x)" and ?st2.0 = "snd ?x" and k = 0] t x c
    by blast
  then have 2: "\<exists>j s. decr_p0 0 scripted ?o0 ?res ?sp = Some (Inr j, s) \<and> total j = 7"
    by (simp add: script_defs item_def not_not_def decimal_def trunc_def wrap32_def)
  show ?thesis using r5 r10 1 2 by blast
qed

text \<open>
  C7 as the spec words it fails on \<^verbatim>\<open>src/unnamed/part_000\<close>.  An instance configured
  with maximum 10 that finds a window of 3 whose \<^verbatim>\<open>limit\<close> key holds 7 answers
  \<^verbatim>\<open>total = 7\<close>: the value read back from the store, not its own maximum.
\<close>

theorem part_000_total_from_store:
  "lim_max (lim5\<lparr>lim_max := 10\<rparr>) = 10
   \<and> get_p0 (Suc 0) scripted (lim5\<lparr>lim_max := 10\<rparr>)
     (start \<lparr>watch_replies = [JPrim JNull],
             mget_replies = [(JPrim JNull, [JStr ''3'', JStr ''7'', JStr ''1700000060''])],
             exec_replies = [(JPrim JNull, JArr [JPrim (JStr ''OK''), JPrim (JNum (Fin 1)),
                                                 JPrim (JNum (Fin 1))])],
             clock = [1700000000123]\<rparr>)
   = Some (Inr \<lparr>total = 7, remaining = 2, reset = 1700000060\<rparr>,
           \<lparr>world = \<lparr>watch_replies = [], mget_replies = [], exec_replies = [], clock = []\<rparr>,
            sent = [WATCH [''limit:a:count''],
                    MGET [''limit:a:count'', ''limit:a:limit'', ''limit:a:reset''],
                    EXEC [SET ''limit:a:count'' 2 59877 XX,
                          PEXPIRE ''limit:a:limit'' 59877,
                          PEXPIRE ''limit:a:reset'' 59877]]\<rparr>)"
  by (simp add: get_p0_def get_opts_p0_def lim5_def script_defs item_def isFirstReplyNull_def
        not_not_def decimal_def trunc_def wrap32_def done_cb_p0_def)

section \<open>The two source files side by side\<close>
















section \<open>The time to live of a decrement, and the parse of what was read\<close>

text \<open>
  C9.  A \<^verbatim>\<open>decr\<close> that gets past the exhaustion check (\<open>n > 0\<close>) sends its transaction
  whatever the sign of the time to live: when \<open>ex * 1000 \<le> now\<close>, the count is set and
  the reset refreshed with \<open>ex * 1000 - now \<le> 0\<close>, and the call goes on from the reply
  as in any other case.
\<close>

theorem decr_ttl_unguarded:
  assumes n: "n = not_not (StringToNumber env) (item res 0)" and pos: "0 < n"
    and ex: "ex = not_not (StringToNumber env) (item res 1)"
    and t: "now env st = (t, st1)"
    and late: "ex * 1000 \<le> t"
    and x: "multi_exec env [SET (opt_count opts) (n - opt_decrBy opts) (ex * 1000 - t) XX,
                            PEXPIRE (opt_reset opts) (ex * 1000 - t)] st1 = ((err, rep), st2)"
  shows "decr k env opts res st
           = (if truthy err then Some (Inl err, st2)
              else if isFirstReplyNull rep then mget k env opts st2
              else Some (Inr (done_cb opts (n - opt_decrBy opts) ex), st2))
       \<and> sent st2 = sent st @ [EXEC [SET (opt_count opts) (n - opt_decrBy opts)
                                        (ex * 1000 - t) XX,
                                      PEXPIRE (opt_reset opts) (ex * 1000 - t)]]
       \<and> ex * 1000 - t \<le> 0"
proof -
  have 1: "decr k env opts res st
           = (if truthy err then Some (Inl err, st2)
              else if isFirstReplyNull rep then mget k env opts st2
              else Some (Inr (done_cb opts (n - opt_decrBy opts) ex), st2))"
    using n pos ex t x by (simp add: Let_def)
  show ?thesis
    using 1 sent_now [OF t] sent_multi_exec [OF x] late by simp
qed

text \<open>
  A window of 4 whose reset second 1700000000 lies 123 ms in the past: the transaction
  goes out with the time to live -123.
\<close>

theorem decr_ttl_unguarded_witness:
  "decr 0 scripted (get_opts lim5 None) [JStr ''4'', JStr ''1700000000'']
     (start \<lparr>watch_replies = [], mget_replies = [],
             exec_replies = [(JPrim JNull, JArr [JPrim (JStr ''OK''), JPrim (JNum (Fin 1))])],
             clock = [1700000000123]\<rparr>)
   = Some (Inr \<lparr>total = 5, remaining = 3, reset = 1700000000\<rparr>,
           \<lparr>world = \<lparr>watch_replies = [], mget_replies = [], exec_replies = [], clock = []\<rparr>,
            sent = [EXEC [SET ''limit:a:count'' 3 (- 123) XX,
                          PEXPIRE ''limit:a:reset'' (- 123)]]\<rparr>)"
proof -
  let ?st = "start \<lparr>watch_replies = [], mget_replies = [],
             exec_replies = [(JPrim JNull, JArr [JPrim (JStr ''OK''), JPrim (JNum (Fin 1))])],
             clock = [1700000000123]\<rparr>"
  let ?o = "get_opts lim5 None"
  let ?res = "[JStr ''4'', JStr ''1700000000'']"
  let ?t = "now scripted ?st"
  let ?x = "multi_exec scripted
              [SET (opt_count ?o) (4 - opt_decrBy ?o) (1700000000 * 1000 - fst ?t) XX,
               PEXPIRE (opt_reset ?o) (1700000000 * 1000 - fst ?t)] (snd ?t)"
  have t: "?t = (fst ?t, snd ?t)" and x: "?x = ((fst (fst ?x), snd (fst ?x)), snd ?x)"
    by simp_all
  have n: "(4::int) = not_not (StringToNumber scripted) (item ?res 0)"
    and ex: "(1700000000::int) = not_not (StringToNumber scripted) (item ?res 1)"
    by (simp_all add: script_defs item_def not_not_def decimal_def trunc_def wrap32_def)
  have pos: "(0::int) < 4" by simp
  have late: "(1700000000::int) * 1000 \<le> fst ?t"
    by (simp add: script_defs)
  show ?thesis
    using decr_ttl_unguarded [OF n pos ex t late x, of 0]
    by (simp add: script_defs get_opts_def lim5_def isFirstReplyNull_def done_cb_def)
qed

text \<open>
  C10.  \<^verbatim>\<open>decr\<close> parses count and reset with \<^verbatim>\<open>~~\<close>, and what it does is fixed by
  the parsed values.  On a count that is \<^verbatim>\<open>null\<close> or whose number is not finite
  (\<^verbatim>\<open>undefined\<close>, a string that is no numeric literal) it answers \<^verbatim>\<open>remaining = 0\<close> at
  once and has sent nothing.  On a count whose number is the finite \<open>r\<close> it works with
  \<open>n = wrap32 (trunc r)\<close>, where \<open>trunc r\<close> is \<open>r\<close> truncated towards zero (no larger
  than \<open>r\<close> in absolute value and less than 1 away from it) and \<open>wrap32\<close> reduces modulo
  \<open>2^32\<close> into the signed 32-bit range: it answers \<^verbatim>\<open>remaining = 0\<close> at once when
  \<open>n \<le> 0\<close>, and otherwise sends the transaction that sets the count to \<open>n - decrBy\<close> and
  answers \<open>max (n - decrBy) 0\<close> when it commits.  The reset it answers, and from which
  it computes the time to live, is the stored reset coerced in the same way.
\<close>

theorem decr_coercion:
  assumes t: "now env st = (t, st1)"
  shows "(item res 0 = JNull \<or> toNumber (StringToNumber env) (item res 0) \<in> {NaN, PosInf, NegInf}
            \<longrightarrow> decr k env opts res st
                  = Some (Inr \<lparr>total = opt_max opts, remaining = 0,
                               reset = toInt32 (toNumber (StringToNumber env) (item res 1))\<rparr>, st1)
              \<and> sent st1 = sent st)
       \<and> (\<forall>r. toNumber (StringToNumber env) (item res 0) = Fin r
            \<longrightarrow> decr k env opts res st
                = (let n = wrap32 (trunc r);
                       ex = toInt32 (toNumber (StringToNumber env) (item res 1))
                   in if n \<le> 0
                      then Some (Inr \<lparr>total = opt_max opts, remaining = 0, reset = ex\<rparr>, st1)
                      else case multi_exec env
                                  [SET (opt_count opts) (n - opt_decrBy opts) (ex * 1000 - t) XX,
                                   PEXPIRE (opt_reset opts) (ex * 1000 - t)] st1 of
                             ((err, rep), st2) \<Rightarrow>
                               if truthy err then Some (Inl err, st2)
                               else if isFirstReplyNull rep then mget k env opts st2
                               else Some (Inr \<lparr>total = opt_max opts,
                                               remaining = max (n - opt_decrBy opts) 0,
                                               reset = ex\<rparr>, st2))
              \<and> \<bar>of_int (trunc r)\<bar> \<le> \<bar>r\<bar> \<and> \<bar>r - of_int (trunc r)\<bar> < 1
              \<and> wrap32 (trunc r) mod 4294967296 = trunc r mod 4294967296
              \<and> - 2147483648 \<le> wrap32 (trunc r) \<and> wrap32 (trunc r) < 2147483648)
       \<and> (\<forall>rx. toNumber (StringToNumber env) (item res 1) = Fin rx
            \<longrightarrow> toInt32 (toNumber (StringToNumber env) (item res 1)) = wrap32 (trunc rx))"
proof -
  let ?n = "not_not (StringToNumber env) (item res 0)"
  let ?ex = "toInt32 (toNumber (StringToNumber env) (item res 1))"
  have a: "item res 0 = JNull \<or> toNumber (StringToNumber env) (item res 0) \<in> {NaN, PosInf, NegInf}
             \<Longrightarrow> ?n = 0"
    by (auto simp: not_not_def wrap32_def trunc_def)
  have b: "?n \<le> 0 \<Longrightarrow> decr k env opts res st
                  = Some (Inr \<lparr>total = opt_max opts, remaining = 0, reset = ?ex\<rparr>, st1)"
    using t by (simp add: Let_def done_cb_def not_not_def)
  have 1: "item res 0 = JNull \<or> toNumber (StringToNumber env) (item res 0) \<in> {NaN, PosInf, NegInf}
            \<longrightarrow> decr k env opts res st
                  = Some (Inr \<lparr>total = opt_max opts, remaining = 0, reset = ?ex\<rparr>, st1)
              \<and> sent st1 = sent st"
    using a b sent_now [OF t] by auto
  have c: "decr k env opts res st
                = (let n = wrap32 (trunc r); ex = ?ex
                   in if n \<le> 0
                      then Some (Inr \<lparr>total = opt_max opts, remaining = 0, reset = ex\<rparr>, st1)
                      else case multi_exec env
                                  [SET (opt_count opts) (n - opt_decrBy opts) (ex * 1000 - t) XX,
                                   PEXPIRE (opt_reset opts) (ex * 1000 - t)] st1 of
                             ((err, rep), st2) \<Rightarrow>
                               if truthy err then Some (Inl err, st2)
                               else if isFirstReplyNull rep then mget k env opts st2
                               else Some (Inr \<lparr>total = opt_max opts,
                                               remaining = max (n - opt_decrBy opts) 0,
                                               reset = ex\<rparr>, st2))"
    if "toNumber (StringToNumber env) (item res 0) = Fin r" for r
    using that t by (simp add: Let_def done_cb_def not_not_def split: prod.splits)
  have 2: "\<forall>r. toNumber (StringToNumber env) (item res 0) = Fin r
            \<longrightarrow> decr k env opts res st
                = (let n = wrap32 (trunc r); ex = ?ex
                   in if n \<le> 0
                      then Some (Inr \<lparr>total = opt_max opts, remaining = 0, reset = ex\<rparr>, st1)
                      else case multi_exec env
                                  [SET (opt_count opts) (n - opt_decrBy opts) (ex * 1000 - t) XX,
                                   PEXPIRE (opt_reset opts) (ex * 1000 - t)] st1 of
                             ((err, rep), st2) \<Rightarrow>
                               if truthy err then Some (Inl err, st2)
                               else if isFirstReplyNull rep then mget k env opts st2
                               else Some (Inr \<lparr>total = opt_max opts,
                                               remaining = max (n - opt_decrBy opts) 0,
                                               reset = ex\<rparr>, st2))
              \<and> \<bar>of_int (trunc r)\<bar> \<le> \<bar>r\<bar> \<and> \<bar>r - of_int (trunc r)\<bar> < 1
              \<and> wrap32 (trunc r) mod 4294967296 = trunc r mod 4294967296
              \<and> - 2147483648 \<le> wrap32 (trunc r) \<and> wrap32 (trunc r) < 2147483648"
    using c trunc_towards_zero wrap32_range wrap32_cong by blast
  have 3: "\<forall>rx. toNumber (StringToNumber env) (item res 1) = Fin rx \<longrightarrow> ?ex = wrap32 (trunc rx)"
    by simp
  show ?thesis using 1 2 3 by blast
qed

text \<open>
  Four reads of the count on \<open>lim5\<close>: \<^verbatim>\<open>"abc"\<close> is exhausted; \<^verbatim>\<open>"4294967301"\<close>, which
  is \<open>2^32 + 5\<close>, counts down from 5; the number 3.7 counts down from 3;
  \<^verbatim>\<open>"2147483648"\<close>, which is \<open>2^31\<close>, wraps to a negative count and is exhausted.
\<close>

theorem decr_coercion_witness:
  "decr 0 scripted (get_opts lim5 None) [JStr ''abc'', JStr ''1700000060'']
     (start \<lparr>watch_replies = [], mget_replies = [], exec_replies = [],
             clock = [1700000000123]\<rparr>)
   = Some (Inr \<lparr>total = 5, remaining = 0, reset = 1700000060\<rparr>,
           \<lparr>world = \<lparr>watch_replies = [], mget_replies = [], exec_replies = [], clock = []\<rparr>,
            sent = []\<rparr>)
   \<and> decr 0 scripted (get_opts lim5 None) [JStr ''4294967301'', JStr ''1700000060'']
     (start \<lparr>watch_replies = [], mget_replies = [],
             exec_replies = [(JPrim JNull, JArr [JPrim (JStr ''OK''), JPrim (JNum (Fin 1))])],
             clock = [1700000000123]\<rparr>)
   = Some (Inr \<lparr>total = 5, remaining = 4, reset = 1700000060\<rparr>,
           \<lparr>world = \<lparr>watch_replies = [], mget_replies = [], exec_replies = [], clock = []\<rparr>,
            sent = [EXEC [SET ''limit:a:count'' 4 59877 XX,
                          PEXPIRE ''limit:a:reset'' 59877]]\<rparr>)
   \<and> decr 0 scripted (get_opts lim5 None) [JNum (Fin (37 / 10)), JStr ''1700000060'']
     (start \<lparr>watch_replies = [], mget_replies = [],
             exec_replies = [(JPrim JNull, JArr [JPrim (JStr ''OK''), JPrim (JNum (Fin 1))])],
             clock = [1700000000123]\<rparr>)
   = Some (Inr \<lparr>total = 5, remaining = 2, reset = 1700000060\<rparr>,
           \<lparr>world = \<lparr>watch_replies = [], mget_replies = [], exec_replies = [], clock = []\<rparr>,
            sent = [EXEC [SET ''limit:a:count'' 2 59877 XX,
                          PEXPIRE ''limit:a:reset'' 59877]]\<rparr>)
   \<and> decr 0 scripted (get_opts lim5 None) [JStr ''2147483648'', JStr ''1700000060'']
     (start \<lparr>watch_replies = [], mget_replies = [], exec_replies = [],
             clock = [1700000000123]\<rparr>)
   = Some (Inr \<lparr>total = 5, remaining = 0, reset = 1700000060\<rparr>,
           \<lparr>world = \<lparr>watch_replies = [], mget_replies = [], exec_replies = [], clock = []\<rparr>,
            sent = []\<rparr>)"
proof -
  let ?o = "get_opts lim5 None"
  let ?s0 = "start \<lparr>watch_replies = [], mget_replies = [], exec_replies = [],
             clock = [1700000000123]\<rparr>"
  let ?s1 = "start \<lparr>watch_replies = [], mget_replies = [],
             exec_replies = [(JPrim JNull, JArr [JPrim (JStr ''OK''), JPrim (JNum (Fin 1))])],
             clock = [1700000000123]\<rparr>"
  let ?t0 = "now scripted ?s0"
  let ?t1 = "now scripted ?s1"
  have t0: "?t0 = (fst ?t0, snd ?t0)" and t1: "?t1 = (fst ?t1, snd ?t1)" by simp_all
  let ?abc = "[JStr ''abc'', JStr ''1700000060'']"
  have nan: "toNumber (StringToNumber scripted) (item ?abc 0) \<in> {NaN, PosInf, NegInf}"
    by (simp add: script_defs item_def decimal_def)
  have "decr 0 scripted ?o ?abc ?s0
          = Some (Inr \<lparr>total = opt_max ?o, remaining = 0,
                       reset = toInt32 (toNumber (StringToNumber scripted) (item ?abc 1))\<rparr>,
                  snd ?t0)"
    using decr_coercion [OF t0, where res = ?abc and opts = ?o and k = 0] nan by blast
  then have 1: "decr 0 scripted ?o ?abc ?s0
   = Some (Inr \<lparr>total = 5, remaining = 0, reset = 1700000060\<rparr>,
           \<lparr>world = \<lparr>watch_replies = [], mget_replies = [], exec_replies = [], clock = []\<rparr>,
            sent = []\<rparr>)"
    by (simp add: script_defs get_opts_def lim5_def item_def decimal_def trunc_def wrap32_def)
  let ?big = "[JStr ''4294967301'', JStr ''1700000060'']"
  have fb: "toNumber (StringToNumber scripted) (item ?big 0) = Fin 4294967301"
    by (simp add: script_defs item_def decimal_def)
  have 2: "decr 0 scripted ?o ?big ?s1
   = Some (Inr \<lparr>total = 5, remaining = 4, reset = 1700000060\<rparr>,
           \<lparr>world = \<lparr>watch_replies = [], mget_replies = [], exec_replies = [], clock = []\<rparr>,
            sent = [EXEC [SET ''limit:a:count'' 4 59877 XX,
                          PEXPIRE ''limit:a:reset'' 59877]]\<rparr>)"
    using decr_coercion [OF t1, where res = ?big and opts = ?o and k = 0,
        THEN conjunct2, THEN conjunct1, rule_format, OF fb, THEN conjunct1]
    by (simp add: script_defs get_opts_def lim5_def item_def decimal_def trunc_def wrap32_def
          isFirstReplyNull_def)
  let ?frac = "[JNum (Fin (37 / 10)), JStr ''1700000060'']"
  have ff: "toNumber (StringToNumber scripted) (item ?frac 0) = Fin (37 / 10)"
    by (simp add: item_def)
  have 3: "decr 0 scripted ?o ?frac ?s1
   = Some (Inr \<lparr>total = 5, remaining = 2, reset = 1700000060\<rparr>,
           \<lparr>world = \<lparr>watch_replies = [], mget_replies = [], exec_replies = [], clock = []\<rparr>,
            sent = [EXEC [SET ''limit:a:count'' 2 59877 XX,
                          PEXPIRE ''limit:a:reset'' 59877]]\<rparr>)"
    using decr_coercion [OF t1, where res = ?frac and opts = ?o and k = 0,
        THEN conjunct2, THEN conjunct1, rule_format, OF ff, THEN conjunct1]
    by (simp add: script_defs get_opts_def lim5_def item_def decimal_def trunc_def wrap32_def
          isFirstReplyNull_def)
  let ?neg = "[JStr ''2147483648'', JStr ''1700000060'']"
  have fn: "toNumber (StringToNumber scripted) (item ?neg 0) = Fin 2147483648"
    by (simp add: script_defs item_def decimal_def)
  have 4: "decr 0 scripted ?o ?neg ?s0
   = Some (Inr \<lparr>total = 5, remaining = 0, reset = 1700000060\<rparr>,
           \<lparr>world = \<lparr>watch_replies = [], mget_replies = [], exec_replies = [], clock = []\<rparr>,
            sent = []\<rparr>)"
    using decr_coercion [OF t0, where res = ?neg and opts = ?o and k = 0,
        THEN conjunct2, THEN conjunct1, rule_format, OF fn, THEN conjunct1]
    by (simp add: script_defs get_opts_def lim5_def item_def decimal_def trunc_def wrap32_def
          isFirstReplyNull_def)
  show ?thesis using 1 2 3 4 by blast
qed

end
